theory Spec2Isabelle
  imports Complex_Main
begin

section \<open>JavaScript values\<close>

text \<open>
  Values as the handlers see them: what \<open>JSON.parse\<close> returns, what a property read
  yields and what \<open>res.json\<close> is given. A number is the rational value of a finite
  double, or one of the two infinities, which \<open>JSON.parse\<close> yields for a literal beyond the
  range of a double; it never yields \<open>NaN\<close>. Negative zero is not told apart from zero:
  both are falsy and both are below 1. A \<open>Date\<close> is its epoch time in milliseconds.
\<close>

datatype js =
    JUndefined
  | JNull
  | JBool bool
  | JNum rat
  | JInfinity
  | JNegInfinity
  | JStr string
  | JDate nat
  | JArr "js list"
  | JObj "(string \<times> js) list"

datatype js_error = SyntaxError | TypeError | Error string

text \<open>
  The message of a thrown error, as \<open>error.message\<close> reads it back. The wording of the
  engine's own SyntaxError and TypeError is not fixed by the language; a short text
  stands for it. No answer of a handler below ever carries it.
\<close>

fun message_of :: "js_error \<Rightarrow> string" where
  "message_of (Error m) = m"
| "message_of SyntaxError = ''Unexpected token''"
| "message_of TypeError = ''not a function''"

text \<open>\<open>!v\<close> is \<open>\<not> truthy v\<close>.\<close>

fun truthy :: "js \<Rightarrow> bool" where
  "truthy JUndefined = False"
| "truthy JNull = False"
| "truthy (JBool b) = b"
| "truthy (JNum n) = (n \<noteq> 0)"
| "truthy JInfinity = True"
| "truthy JNegInfinity = True"
| "truthy (JStr s) = (s \<noteq> [])"
| "truthy (JDate t) = True"
| "truthy (JArr vs) = True"
| "truthy (JObj kvs) = True"

text \<open>
  \<open>v.k\<close> for the two keys the decoder reads (\<open>customerId\<close>, \<open>queueNumber\<close>): reading a
  property of \<open>null\<close> or \<open>undefined\<close> throws a TypeError, an object yields the value stored
  under the key, and every other value has no such property.
\<close>

fun get_property :: "js \<Rightarrow> string \<Rightarrow> js_error + js" where
  "get_property JUndefined k = Inl TypeError"
| "get_property JNull k = Inl TypeError"
| "get_property (JObj kvs) k = Inr (case map_of kvs k of None \<Rightarrow> JUndefined | Some v \<Rightarrow> v)"
| "get_property (JBool b) k = Inr JUndefined"
| "get_property (JNum n) k = Inr JUndefined"
| "get_property JInfinity k = Inr JUndefined"
| "get_property JNegInfinity k = Inr JUndefined"
| "get_property (JStr s) k = Inr JUndefined"
| "get_property (JDate t) k = Inr JUndefined"
| "get_property (JArr vs) k = Inr JUndefined"

definition is_digit :: "char \<Rightarrow> bool" where
  "is_digit c = (c \<in> set ''0123456789'')"

text \<open>The regular expression \<open>/^SM-\d+$/\<close> of the decoder and of the customer schema.\<close>

fun matches_SM_digits :: "string \<Rightarrow> bool" where
  "matches_SM_digits (a # b # c # ds) =
     (a = CHR ''S'' \<and> b = CHR ''M'' \<and> c = CHR ''-'' \<and> ds \<noteq> [] \<and> list_all is_digit ds)"
| "matches_SM_digits _ = False"

subsection \<open>Numbers\<close>

text \<open>
  A JavaScript number is an IEEE 754 double. The queue numbers this program stores hold
  integers, and a stored number is modelled by the integer it holds. Arithmetic on them
  rounds to the nearest double, ties to the even significand: up to \<open>2^53\<close> in
  magnitude every integer is a double and nothing is lost; beyond, a double keeps the 53
  leading bits. \<open>bit_length\<close> is the number of binary digits.
\<close>

fun bit_length :: "nat \<Rightarrow> nat" where
  "bit_length n = (if n = 0 then 0 else Suc (bit_length (n div 2)))"

declare bit_length.simps [simp del]

definition round_to_double :: "int \<Rightarrow> int" where
  "round_to_double k =
     (let a = nat \<bar>k\<bar> in
      if a < 2 ^ 53 then k
      else let q = 2 ^ (bit_length a - 53);
               m = a div q;
               r = a mod q;
               m' = (if 2 * r < q then m
                     else if q < 2 * r then m + 1
                     else if even m then m else m + 1)
           in sgn k * int (m' * q))"

text \<open>\<open>2\<close> to an integer power, as a rational.\<close>

definition pow2 :: "int \<Rightarrow> rat" where
  "pow2 e = (if 0 \<le> e then 2 ^ nat e else 1 / 2 ^ nat (- e))"

text \<open>
  The double nearest to a rational, ties to the even significand: 53 significant bits,
  no exponent below \<open>-1074\<close>, and an infinity from \<open>2^1024\<close> on.
\<close>

definition double_of_rat :: "rat \<Rightarrow> js" where
  "double_of_rat q =
     (if of_int \<lfloor>q\<rfloor> = q \<and> \<bar>q\<bar> < 2 ^ 53 then JNum q
      else let a = \<bar>q\<bar>;
               d = int (bit_length (nat (fst (quotient_of a)))) - int (bit_length (nat (snd (quotient_of a))));
               E = (if pow2 d \<le> a then d else d - 1);
               e = max (E - 52) (- 1074);
               x = a / pow2 e;
               m = \<lfloor>x\<rfloor>;
               m' = (if x - of_int m < 1 / 2 then m
                     else if 1 / 2 < x - of_int m then m + 1
                     else if even m then m else m + 1);
               v = of_int m' * pow2 e
           in if pow2 1024 \<le> v then (if 0 < q then JInfinity else JNegInfinity)
              else JNum (if 0 < q then v else - v))"

subsection \<open>The runtime\<close>

text \<open>
  The parts of the JavaScript runtime and of the \<open>qrcode\<close> package that the handlers
  call and do not define. \<open>JSON_parse\<close> is \<open>None\<close> where \<open>JSON.parse\<close> throws its
  SyntaxError; \<open>toDataURL\<close> is \<open>None\<close> where \<open>QRCode.toDataURL\<close> rejects. What the
  language standard says \<open>JSON.parse\<close> and \<open>JSON.stringify\<close> compute is written out in the
  next section.
\<close>

record js_runtime =
  JSON_parse :: "string \<Rightarrow> js option"
  toISOString :: "nat \<Rightarrow> string"
  toDataURL :: "string \<Rightarrow> string option"

section \<open>JSON (ECMAScript, clause 25.5)\<close>

text \<open>
  \<open>JSON.parse\<close> and the part of \<open>JSON.stringify\<close> that the codec uses, as the language
  standard defines them. A text is a list of bytes, a character outside ASCII being its
  UTF-8 bytes.
\<close>

subsection \<open>Reading JSON\<close>

definition digit_val :: "char \<Rightarrow> nat" where
  "digit_val c = of_char c - 48"

definition digits_val :: "string \<Rightarrow> nat" where
  "digits_val ds = foldl (\<lambda>a c. 10 * a + digit_val c) 0 ds"

definition is_ws :: "char \<Rightarrow> bool" where
  "is_ws c = (c \<in> set [CHR 0x20, CHR 0x09, CHR 0x0A, CHR 0x0D])"

definition skip_ws :: "string \<Rightarrow> string" where
  "skip_ws s = dropWhile is_ws s"

definition hex_val :: "char \<Rightarrow> nat option" where
  "hex_val c =
     (let n = (of_char c :: nat) in
      if 48 \<le> n \<and> n \<le> 57 then Some (n - 48)
      else if 97 \<le> n \<and> n \<le> 102 then Some (n - 87)
      else if 65 \<le> n \<and> n \<le> 70 then Some (n - 55)
      else None)"

text \<open>The code unit written by four hexadecimal digits.\<close>

definition hex4 :: "string \<Rightarrow> nat option" where
  "hex4 s =
     (case map hex_val s of
        [Some a, Some b, Some c, Some d] \<Rightarrow> Some (4096 * a + 256 * b + 16 * c + d)
      | _ \<Rightarrow> None)"

text \<open>A text is held as its UTF-8 bytes.\<close>

definition utf8 :: "nat \<Rightarrow> string" where
  "utf8 u =
     (if u < 128 then [char_of u]
      else if u < 2048 then [char_of (192 + u div 64), char_of (128 + u mod 64)]
      else if u < 65536
        then [char_of (224 + u div 4096), char_of (128 + u div 64 mod 64), char_of (128 + u mod 64)]
      else [char_of (240 + u div 262144), char_of (128 + u div 4096 mod 64),
            char_of (128 + u div 64 mod 64), char_of (128 + u mod 64)])"

definition is_high_surrogate :: "nat \<Rightarrow> bool" where
  "is_high_surrogate u = (55296 \<le> u \<and> u < 56320)"

definition is_low_surrogate :: "nat \<Rightarrow> bool" where
  "is_low_surrogate u = (56320 \<le> u \<and> u < 57344)"

text \<open>The low surrogate written as an escape at the head of a text, if there is one.\<close>

definition low_escape :: "string \<Rightarrow> nat option" where
  "low_escape s =
     (if take 2 s = [CHR 0x5C, CHR ''u'']
      then (case hex4 (take 4 (drop 2 s)) of
              None \<Rightarrow> None
            | Some u \<Rightarrow> if is_low_surrogate u then Some u else None)
      else None)"

definition simple_escape :: "char \<Rightarrow> char option" where
  "simple_escape e =
     (if e = CHR 0x22 then Some (CHR 0x22)
      else if e = CHR 0x5C then Some (CHR 0x5C)
      else if e = CHR ''/'' then Some (CHR ''/'')
      else if e = CHR ''b'' then Some (CHR 0x08)
      else if e = CHR ''f'' then Some (CHR 0x0C)
      else if e = CHR ''n'' then Some (CHR 0x0A)
      else if e = CHR ''r'' then Some (CHR 0x0D)
      else if e = CHR ''t'' then Some (CHR 0x09)
      else None)"

text \<open>
  The characters of a string literal up to its closing quote, escapes left as written,
  and the text after the quote.
\<close>

fun take_body :: "string \<Rightarrow> (string \<times> string) option" where
  "take_body [] = None"
| "take_body (c # s) =
     (if c = CHR 0x22 then Some ([], s)
      else if c = CHR 0x5C
        then (case s of
                [] \<Rightarrow> None
              | e # t \<Rightarrow> map_option (apfst (\<lambda>b. c # e # b)) (take_body t))
      else map_option (apfst ((#) c)) (take_body s))"

text \<open>The value of the characters of a string literal.\<close>

function unescape :: "string \<Rightarrow> string option" where
  "unescape [] = Some []"
| "unescape (c # s) =
     (if c = CHR 0x5C
      then (case s of
              [] \<Rightarrow> None
            | e # t \<Rightarrow>
                if e = CHR ''u''
                then (case hex4 (take 4 t) of
                        None \<Rightarrow> None
                      | Some u \<Rightarrow>
                          (case (if is_high_surrogate u then low_escape (drop 4 t) else None) of
                             Some lo \<Rightarrow>
                               map_option ((@) (utf8 (65536 + (u - 55296) * 1024 + (lo - 56320))))
                                 (unescape (drop 10 t))
                           | None \<Rightarrow> map_option ((@) (utf8 u)) (unescape (drop 4 t))))
                else (case simple_escape e of
                        None \<Rightarrow> None
                      | Some b \<Rightarrow> map_option ((#) b) (unescape t)))
      else if (of_char c :: nat) < 32 then None
      else map_option ((#) c) (unescape s))"
  by pat_completeness auto
termination
  by (relation "measure length") auto

definition parse_string :: "string \<Rightarrow> (string \<times> string) option" where
  "parse_string s =
     (case take_body s of
        None \<Rightarrow> None
      | Some (raw, rest) \<Rightarrow>
          (case unescape raw of None \<Rightarrow> None | Some v \<Rightarrow> Some (v, rest)))"

text \<open>
  A number literal: an optional minus, \<open>0\<close> or a digit string without leading zero, an
  optional fraction, an optional exponent. Each part is returned with the text after it.
\<close>

definition integer_part :: "string \<Rightarrow> string" where
  "integer_part s = (if take 1 s = ''0'' then ''0'' else takeWhile is_digit s)"

definition fraction_part :: "string \<Rightarrow> (string \<times> string) option" where
  "fraction_part s =
     (if take 1 s = ''.''
      then (if takeWhile is_digit (drop 1 s) = [] then None
            else Some (takeWhile is_digit (drop 1 s), dropWhile is_digit (drop 1 s)))
      else Some ([], s))"

definition exponent_part :: "string \<Rightarrow> (int \<times> string) option" where
  "exponent_part s =
     (if take 1 s = ''e'' \<or> take 1 s = ''E''
      then (let t = (if take 1 (drop 1 s) = ''-'' \<or> take 1 (drop 1 s) = ''+''
                     then drop 2 s else drop 1 s)
            in if takeWhile is_digit t = [] then None
               else Some (if take 1 (drop 1 s) = ''-''
                          then - int (digits_val (takeWhile is_digit t))
                          else int (digits_val (takeWhile is_digit t)),
                          dropWhile is_digit t))
      else Some (0, s))"

definition scale10 :: "rat \<Rightarrow> int \<Rightarrow> rat" where
  "scale10 q e = (if 0 \<le> e then q * 10 ^ nat e else q / 10 ^ nat (- e))"

definition parse_number :: "string \<Rightarrow> (js \<times> string) option" where
  "parse_number s =
     (let digits = (if take 1 s = ''-'' then drop 1 s else s);
          ip = integer_part digits
      in if ip = [] then None
         else case fraction_part (drop (length ip) digits) of
           None \<Rightarrow> None
         | Some (fp, after_fraction) \<Rightarrow>
             (case exponent_part after_fraction of
                None \<Rightarrow> None
              | Some (ex, rest) \<Rightarrow>
                  Some (double_of_rat
                          (scale10 ((if take 1 s = ''-'' then - 1 else 1)
                                    * of_nat (digits_val (ip @ fp)) / 10 ^ length fp) ex),
                        rest)))"

text \<open>
  Storing a property: an existing key keeps its place and takes the new value; a new
  array index goes among the indices in ascending order, before every other key; any
  other new key goes last.
\<close>

definition array_index :: "string \<Rightarrow> nat option" where
  "array_index k =
     (if k \<noteq> [] \<and> list_all is_digit k \<and> (k = ''0'' \<or> hd k \<noteq> CHR ''0'')
         \<and> digits_val k < 4294967295
      then Some (digits_val k) else None)"

fun insert_index :: "nat \<Rightarrow> string \<Rightarrow> js \<Rightarrow> (string \<times> js) list \<Rightarrow> (string \<times> js) list" where
  "insert_index i k v [] = [(k, v)]"
| "insert_index i k v ((k', v') # kvs) =
     (case array_index k' of
        None \<Rightarrow> (k, v) # (k', v') # kvs
      | Some j \<Rightarrow> if i < j then (k, v) # (k', v') # kvs else (k', v') # insert_index i k v kvs)"

definition define_property :: "(string \<times> js) list \<Rightarrow> string \<Rightarrow> js \<Rightarrow> (string \<times> js) list" where
  "define_property kvs k v =
     (if k \<in> fst ` set kvs then map (\<lambda>(k', v'). if k' = k then (k', v) else (k', v')) kvs
      else case array_index k of
             None \<Rightarrow> kvs @ [(k, v)]
           | Some i \<Rightarrow> insert_index i k v kvs)"

text \<open>
  A value at the head of a text, and the text after it. The first argument bounds the
  number of nested calls; twice the length of the text is never reached.
\<close>

fun parse_value :: "nat \<Rightarrow> string \<Rightarrow> (js \<times> string) option"
  and parse_elements :: "nat \<Rightarrow> js list \<Rightarrow> string \<Rightarrow> (js \<times> string) option"
  and parse_members :: "nat \<Rightarrow> (string \<times> js) list \<Rightarrow> string \<Rightarrow> (js \<times> string) option" where
  "parse_value 0 s = None"
| "parse_value (Suc n) s =
     (if take 1 s = ''{''
      then (if take 1 (skip_ws (drop 1 s)) = ''}'' then Some (JObj [], drop 1 (skip_ws (drop 1 s)))
            else parse_members n [] (skip_ws (drop 1 s)))
      else if take 1 s = ''[''
      then (if take 1 (skip_ws (drop 1 s)) = '']'' then Some (JArr [], drop 1 (skip_ws (drop 1 s)))
            else parse_elements n [] (skip_ws (drop 1 s)))
      else if take 1 s = [CHR 0x22]
      then (case parse_string (drop 1 s) of
              None \<Rightarrow> None
            | Some (v, rest) \<Rightarrow> Some (JStr v, rest))
      else if take 4 s = ''true'' then Some (JBool True, drop 4 s)
      else if take 5 s = ''false'' then Some (JBool False, drop 5 s)
      else if take 4 s = ''null'' then Some (JNull, drop 4 s)
      else parse_number s)"
| "parse_elements 0 acc s = None"
| "parse_elements (Suc n) acc s =
     (case parse_value n s of
        None \<Rightarrow> None
      | Some (v, rest) \<Rightarrow>
          if take 1 (skip_ws rest) = '',''
          then parse_elements n (acc @ [v]) (skip_ws (drop 1 (skip_ws rest)))
          else if take 1 (skip_ws rest) = '']''
          then Some (JArr (acc @ [v]), drop 1 (skip_ws rest))
          else None)"
| "parse_members 0 acc s = None"
| "parse_members (Suc n) acc s =
     (if take 1 s \<noteq> [CHR 0x22] then None
      else case parse_string (drop 1 s) of
        None \<Rightarrow> None
      | Some (k, rest) \<Rightarrow>
          if take 1 (skip_ws rest) \<noteq> '':'' then None
          else (case parse_value n (skip_ws (drop 1 (skip_ws rest))) of
                  None \<Rightarrow> None
                | Some (v, rest') \<Rightarrow>
                    if take 1 (skip_ws rest') = '',''
                    then parse_members n (define_property acc k v)
                           (skip_ws (drop 1 (skip_ws rest')))
                    else if take 1 (skip_ws rest') = ''}''
                    then Some (JObj (define_property acc k v), drop 1 (skip_ws rest'))
                    else None))"

text \<open>\<open>JSON.parse\<close>: one value, with white space around it and nothing else.\<close>

definition json_parse :: "string \<Rightarrow> js option" where
  "json_parse s =
     (case parse_value (2 * length s + 2) (skip_ws s) of
        None \<Rightarrow> None
      | Some (v, rest) \<Rightarrow> if skip_ws rest = [] then Some v else None)"

subsection \<open>Writing JSON\<close>

definition digit_char :: "nat \<Rightarrow> char" where
  "digit_char n = char_of (48 + n)"

fun decimal :: "nat \<Rightarrow> string" where
  "decimal n = (if n < 10 then [digit_char n] else decimal (n div 10) @ [digit_char (n mod 10)])"

declare decimal.simps [simp del]

text \<open>
  The digits a number is written with are the fewest that still read back as the same
  double: \<open>shortest x k l\<close> looks for \<open>k\<close> digits \<open>s\<close> and a length \<open>n\<close> with \<open>s\<close> followed
  by \<open>n - k\<close> zeros rounding to \<open>x\<close>, the nearest to \<open>x\<close> first and the even one on a tie,
  and tries one digit more when there are none. \<open>l\<close> is the number of digits of \<open>x\<close>.
\<close>

function shortest :: "nat \<Rightarrow> nat \<Rightarrow> nat \<Rightarrow> nat \<times> nat \<times> nat" where
  "shortest x k l =
     (if l \<le> k then (l, l, x)
      else let p = 10 ^ (l - k);
               lo = x div p;
               hi = lo + 1;
               lo_ok = (10 ^ (k - 1) \<le> lo \<and> round_to_double (int (lo * p)) = int x);
               hi_ok = (round_to_double (int (hi * p)) = int x);
               up = (if hi = 10 ^ k then (l + 1, k, 10 ^ (k - 1)) else (l, k, hi))
           in if lo_ok \<and> hi_ok
              then (if x - lo * p < hi * p - x then (l, k, lo)
                    else if hi * p - x < x - lo * p then up
                    else if even lo then (l, k, lo) else up)
              else if lo_ok then (l, k, lo)
              else if hi_ok then up
              else shortest x (k + 1) l)"
  by pat_completeness auto
termination
  by (relation "measure (\<lambda>(x, k, l). l - k)") auto

declare shortest.simps [simp del]

text \<open>\<open>Number::toString\<close> for a double holding a non-negative integer.\<close>

definition magnitude_text :: "nat \<Rightarrow> string" where
  "magnitude_text a =
     (if a < 2 ^ 53 then decimal a
      else case shortest a 1 (length (decimal a)) of
        (n, k, s) \<Rightarrow>
          if n \<le> 21 then decimal s @ replicate (n - k) (CHR ''0'')
          else take 1 (decimal s)
               @ (if 1 < k then CHR ''.'' # drop 1 (decimal s) else [])
               @ ''e+'' @ decimal (n - 1))"

definition number_text :: "int \<Rightarrow> string" where
  "number_text x = (if x < 0 then CHR ''-'' # magnitude_text (nat (- x)) else magnitude_text (nat x))"

definition hex_digit :: "nat \<Rightarrow> char" where
  "hex_digit n = (if n < 10 then char_of (48 + n) else char_of (87 + n))"

text \<open>\<open>QuoteJSONString\<close>, one character at a time.\<close>

definition quote_char :: "char \<Rightarrow> string" where
  "quote_char c =
     (if c = CHR 0x22 then [CHR 0x5C, CHR 0x22]
      else if c = CHR 0x5C then [CHR 0x5C, CHR 0x5C]
      else if c = CHR 0x08 then [CHR 0x5C, CHR ''b'']
      else if c = CHR 0x0C then [CHR 0x5C, CHR ''f'']
      else if c = CHR 0x0A then [CHR 0x5C, CHR ''n'']
      else if c = CHR 0x0D then [CHR 0x5C, CHR ''r'']
      else if c = CHR 0x09 then [CHR 0x5C, CHR ''t'']
      else if (of_char c :: nat) < 32
        then [CHR 0x5C, CHR ''u'', CHR ''0'', CHR ''0'',
              hex_digit (of_char c div 16), hex_digit (of_char c mod 16)]
      else [c])"

definition json_quote :: "string \<Rightarrow> string" where
  "json_quote s = CHR 0x22 # concat (map quote_char s) @ [CHR 0x22]"

section \<open>The credential codec (utils/qrCodeGenerator.js)\<close>

text \<open>
  \<open>generateQRCode\<close> serialises \<open>{customerId, queueNumber, timestamp}\<close> and renders the
  text as an image; \<open>qrPayload\<close> is the text inside the image, the one a scanner hands to
  \<open>decodeQRData\<close>. The clock reading \<open>now\<close> is the value of \<open>new Date()\<close>. The customer
  id is a string and the queue number a number holding an integer, as the schema has
  them; \<open>JSON.stringify\<close> writes the properties of the literal in the order they are
  written in, without white space.
\<close>

definition qrPayload :: "js_runtime \<Rightarrow> string \<Rightarrow> int \<Rightarrow> nat \<Rightarrow> string" where
  \<open>qrPayload rt cid qn now =
     ''{"customerId":'' @ json_quote cid
     @ '',"queueNumber":'' @ number_text qn
     @ '',"timestamp":'' @ json_quote (toISOString rt now) @ ''}''\<close>

definition generateQRCode :: "js_runtime \<Rightarrow> string \<Rightarrow> int \<Rightarrow> nat \<Rightarrow> js_error + string" where
  "generateQRCode rt cid qn now =
     (case toDataURL rt (qrPayload rt cid qn now) of
        None \<Rightarrow> Inl (Error ''Failed to generate QR code'')
      | Some qrCodeDataURL \<Rightarrow> Inr qrCodeDataURL)"

text \<open>The body of the \<open>try\<close> block of \<open>decodeQRData\<close>, with the error each line throws.\<close>

definition decodeQRData_try :: "js_runtime \<Rightarrow> string \<Rightarrow> js_error + js" where
  "decodeQRData_try rt qrData =
     (case JSON_parse rt qrData of
        None \<Rightarrow> Inl SyntaxError
      | Some parsedData \<Rightarrow>
          (case get_property parsedData ''customerId'' of
             Inl e \<Rightarrow> Inl e
           | Inr cid \<Rightarrow>
               if \<not> truthy cid then Inl (Error ''Invalid QR code: Missing required fields'')
               else (case get_property parsedData ''queueNumber'' of
                       Inl e \<Rightarrow> Inl e
                     | Inr qn \<Rightarrow>
                         if \<not> truthy qn
                         then Inl (Error ''Invalid QR code: Missing required fields'')
                         else (case cid of
                                 JStr s \<Rightarrow>
                                   if \<not> matches_SM_digits s
                                   then Inl (Error ''Invalid customer ID format'')
                                   else (case qn of
                                           JNum n \<Rightarrow>
                                             if n < 1 then Inl (Error ''Invalid queue number'')
                                             else Inr parsedData
                                         | JInfinity \<Rightarrow> Inr parsedData
                                         | _ \<Rightarrow> Inl (Error ''Invalid queue number''))
                               | _ \<Rightarrow> Inl TypeError))))"

text \<open>The \<open>catch\<close> block logs whatever was thrown and throws one fixed error in its place.\<close>

definition decodeQRData :: "js_runtime \<Rightarrow> string \<Rightarrow> js_error + js" where
  "decodeQRData rt qrData =
     (case decodeQRData_try rt qrData of
        Inl e \<Rightarrow> Inl (Error ''Invalid QR code format'')
      | Inr parsedData \<Rightarrow> Inr parsedData)"

section \<open>The Customer and Queue models\<close>

datatype status = WAITING | BILLED | VERIFIED

fun status_str :: "status \<Rightarrow> string" where
  "status_str WAITING = ''WAITING''"
| "status_str BILLED = ''BILLED''"
| "status_str VERIFIED = ''VERIFIED''"

text \<open>
  A document of the Customer collection. \<open>oid\<close> is the \<open>_id\<close> that \<open>save\<close> addresses the
  document by. A stored queue number holds an integer: the only writers are the
  allocator (\<open>1\<close> or a stored number plus one, rounded to a double) and the seed data.
\<close>

record customer =
  oid :: nat
  customerId :: string
  name :: string
  phone :: string
  cartTotal :: rat
  queueNumber :: int
  qrCode :: string
  status :: status
  billedAt :: "nat option"
  verifiedAt :: "nat option"
  createdAt :: nat

datatype queue_status = ACTIVE | COMPLETED

text \<open>A document of the Queue collection; its fields carry the prefix \<open>q_\<close>.\<close>

record queue =
  q_oid :: nat
  q_queueNumber :: int
  q_customerId :: string
  q_status :: queue_status
  q_enteredAt :: nat
  q_completedAt :: "nat option"

text \<open>The database: both collections in their natural order.\<close>

record db =
  customers :: "customer list"
  queues :: "queue list"

text \<open>\<open>Customer.findOne({ customerId })\<close>\<close>

definition Customer_findOne :: "customer list \<Rightarrow> string \<Rightarrow> customer option" where
  "Customer_findOne cs cid = find (\<lambda>c. customerId c = cid) cs"

text \<open>
  \<open>markAsBilled\<close> and \<open>markAsVerified\<close> assign two fields of the document in memory and
  call \<open>save\<close>, which sets the modified fields of the stored document with that \<open>_id\<close>.
\<close>

definition markAsBilled_local :: "customer \<Rightarrow> nat \<Rightarrow> customer" where
  "markAsBilled_local c now = c\<lparr>status := BILLED, billedAt := Some now\<rparr>"

definition save_billed :: "customer list \<Rightarrow> customer \<Rightarrow> customer list" where
  "save_billed cs c =
     map (\<lambda>d. if oid d = oid c then d\<lparr>status := status c, billedAt := billedAt c\<rparr> else d) cs"

definition markAsVerified_local :: "customer \<Rightarrow> nat \<Rightarrow> customer" where
  "markAsVerified_local c now = c\<lparr>status := VERIFIED, verifiedAt := Some now\<rparr>"

definition save_verified :: "customer list \<Rightarrow> customer \<Rightarrow> customer list" where
  "save_verified cs c =
     map (\<lambda>d. if oid d = oid c then d\<lparr>status := status c, verifiedAt := verifiedAt c\<rparr> else d) cs"

text \<open>
  \<open>getNextQueueNumber\<close>: \<open>findOne().sort({ queueNumber: -1 })\<close> is the head of the
  collection sorted by descending queue number, and \<open>lastCustomer.queueNumber + 1\<close> is an
  addition of doubles.
\<close>

definition getNextQueueNumber :: "customer list \<Rightarrow> int" where
  "getNextQueueNumber cs =
     (case sort_key (\<lambda>c. - queueNumber c) cs of
        [] \<Rightarrow> 1
      | lastCustomer # _ \<Rightarrow> round_to_double (queueNumber lastCustomer + 1))"

text \<open>\<open>Queue.findOne({ customerId, status: 'ACTIVE' })\<close>\<close>

definition Queue_findOne_active :: "queue list \<Rightarrow> string \<Rightarrow> queue option" where
  "Queue_findOne_active qs cid = find (\<lambda>q. q_customerId q = cid \<and> q_status q = ACTIVE) qs"

definition complete_local :: "queue \<Rightarrow> nat \<Rightarrow> queue" where
  "complete_local q now = q\<lparr>q_status := COMPLETED, q_completedAt := Some now\<rparr>"

definition save_completed :: "queue list \<Rightarrow> queue \<Rightarrow> queue list" where
  "save_completed qs q =
     map (\<lambda>d. if q_oid d = q_oid q
              then d\<lparr>q_status := q_status q, q_completedAt := q_completedAt q\<rparr> else d) qs"

text \<open>\<open>Queue.getPosition\<close>\<close>

definition getPosition :: "queue list \<Rightarrow> int \<Rightarrow> nat" where
  "getPosition qs n = length (filter (\<lambda>q. q_status q = ACTIVE \<and> q_queueNumber q < n) qs) + 1"

section \<open>HTTP responses\<close>

text \<open>
  What \<open>res.status(n).json(o)\<close> sends. The database is taken to be reachable: the answer
  500 that each handler's outer \<open>catch\<close> gives when a database call rejects is outside the
  model.
\<close>

record response =
  http_status :: nat
  body :: js

definition date_or_null :: "nat option \<Rightarrow> js" where
  "date_or_null d = (case d of None \<Rightarrow> JNull | Some t \<Rightarrow> JDate t)"

definition customer_not_found :: response where
  "customer_not_found =
     \<lparr>http_status = 404,
      body = JObj [(''success'', JBool False), (''message'', JStr ''Customer not found'')]\<rparr>"

section \<open>completeBilling (controllers/billingController.js)\<close>

definition billing_data :: "customer \<Rightarrow> js" where
  "billing_data c =
     JObj [(''customerId'', JStr (customerId c)),
           (''name'', JStr (name c)),
           (''queueNumber'', JNum (of_int (queueNumber c))),
           (''status'', JStr (status_str (status c))),
           (''billedAt'', date_or_null (billedAt c))]"

definition billing_already_verified :: "customer \<Rightarrow> response" where
  "billing_already_verified c =
     \<lparr>http_status = 400,
      body = JObj [(''success'', JBool False),
                   (''message'', JStr ''Customer has already been verified and exited''),
                   (''currentStatus'', JStr (status_str (status c)))]\<rparr>"

definition billing_already_billed :: "customer \<Rightarrow> response" where
  "billing_already_billed c =
     \<lparr>http_status = 200,
      body = JObj [(''success'', JBool True),
                   (''message'', JStr ''Customer is already billed''),
                   (''data'', billing_data c)]\<rparr>"

definition billing_completed :: "customer \<Rightarrow> response" where
  "billing_completed c =
     \<lparr>http_status = 200,
      body = JObj [(''success'', JBool True),
                   (''message'', JStr ''Billing completed successfully''),
                   (''data'', billing_data c)]\<rparr>"

text \<open>\<open>completeBilling\<close>, with \<open>now\<close> the clock reading inside \<open>markAsBilled\<close>.\<close>

definition completeBilling :: "db \<Rightarrow> string \<Rightarrow> nat \<Rightarrow> db \<times> response" where
  "completeBilling s cid now =
     (case Customer_findOne (customers s) cid of
        None \<Rightarrow> (s, customer_not_found)
      | Some c \<Rightarrow>
          if status c = VERIFIED then (s, billing_already_verified c)
          else if status c = BILLED then (s, billing_already_billed c)
          else let c' = markAsBilled_local c now
               in (s\<lparr>customers := save_billed (customers s) c'\<rparr>, billing_completed c'))"

section \<open>verifyQRCode (the verification controller)\<close>

definition qr_data_required :: response where
  "qr_data_required =
     \<lparr>http_status = 400,
      body = JObj [(''success'', JBool False), (''message'', JStr ''QR code data is required'')]\<rparr>"

definition invalid_qr_format :: "js_error \<Rightarrow> response" where
  "invalid_qr_format e =
     \<lparr>http_status = 400,
      body = JObj [(''success'', JBool False),
                   (''message'', JStr ''Invalid QR code format''),
                   (''error'', JStr (message_of e))]\<rparr>"

definition verify_not_found :: response where
  "verify_not_found =
     \<lparr>http_status = 404,
      body = JObj [(''success'', JBool False),
                   (''message'', JStr ''Customer not found''),
                   (''verification'', JStr ''FAILED''),
                   (''reason'', JStr ''INVALID_QR'')]\<rparr>"

definition data_mismatch :: response where
  "data_mismatch =
     \<lparr>http_status = 400,
      body = JObj [(''success'', JBool False),
                   (''message'', JStr ''QR code data mismatch''),
                   (''verification'', JStr ''FAILED''),
                   (''reason'', JStr ''DATA_MISMATCH'')]\<rparr>"

definition duplicate_scan :: "customer \<Rightarrow> response" where
  "duplicate_scan c =
     \<lparr>http_status = 400,
      body = JObj [(''success'', JBool False),
                   (''message'', JStr ''QR code already used''),
                   (''verification'', JStr ''FAILED''),
                   (''reason'', JStr ''DUPLICATE_SCAN''),
                   (''verifiedAt'', date_or_null (verifiedAt c)),
                   (''data'', JObj [(''customerId'', JStr (customerId c)),
                                    (''name'', JStr (name c)),
                                    (''previousVerification'', date_or_null (verifiedAt c))])]\<rparr>"

definition not_billed :: "customer \<Rightarrow> response" where
  "not_billed c =
     \<lparr>http_status = 400,
      body = JObj [(''success'', JBool False),
                   (''message'', JStr ''Customer has not been billed yet''),
                   (''verification'', JStr ''FAILED''),
                   (''reason'', JStr ''NOT_BILLED''),
                   (''currentStatus'', JStr (status_str (status c)))]\<rparr>"

definition verification_successful :: "customer \<Rightarrow> response" where
  "verification_successful c =
     \<lparr>http_status = 200,
      body = JObj [(''success'', JBool True),
                   (''message'', JStr ''Verification successful''),
                   (''verification'', JStr ''SUCCESS''),
                   (''data'', JObj [(''customerId'', JStr (customerId c)),
                                    (''name'', JStr (name c)),
                                    (''phone'', JStr (phone c)),
                                    (''queueNumber'', JNum (of_int (queueNumber c))),
                                    (''cartTotal'', JNum (cartTotal c)),
                                    (''status'', JStr (status_str (status c))),
                                    (''billedAt'', date_or_null (billedAt c)),
                                    (''verifiedAt'', date_or_null (verifiedAt c))])]\<rparr>"

text \<open>The outer \<open>catch\<close> of \<open>verifyQRCode\<close>.\<close>

definition verification_error :: "js_error \<Rightarrow> response" where
  "verification_error e =
     \<lparr>http_status = 500,
      body = JObj [(''success'', JBool False),
                   (''message'', JStr ''Verification failed''),
                   (''verification'', JStr ''ERROR''),
                   (''error'', JStr (message_of e))]\<rparr>"

text \<open>
  \<open>const { customerId, queueNumber } = decodedData\<close>: after a successful decode the first
  is a string; the second is a number, which \<open>!==\<close> compares with the stored one.
\<close>

fun js_string :: "js_error + js \<Rightarrow> string option" where
  "js_string (Inr (JStr s)) = Some s"
| "js_string _ = None"

text \<open>
  Steps 1 to 5 of \<open>verifyQRCode\<close>: each early \<open>return\<close> is an \<open>Inl\<close>, and \<open>Inr\<close> is the
  customer document that passed every check. Nothing is written.
\<close>

definition verifyQRCode_checks :: "js_runtime \<Rightarrow> db \<Rightarrow> string \<Rightarrow> response + customer" where
  "verifyQRCode_checks rt s qrData =
     (if qrData = [] then Inl qr_data_required
      else case decodeQRData rt qrData of
        Inl e \<Rightarrow> Inl (invalid_qr_format e)
      | Inr decodedData \<Rightarrow>
          (case js_string (get_property decodedData ''customerId'') of
             None \<Rightarrow> Inl (verification_error TypeError)
           | Some cid \<Rightarrow>
               (case Customer_findOne (customers s) cid of
                  None \<Rightarrow> Inl verify_not_found
                | Some c \<Rightarrow>
                    if get_property decodedData ''queueNumber''
                       \<noteq> Inr (JNum (of_int (queueNumber c)))
                    then Inl data_mismatch
                    else if status c = VERIFIED then Inl (duplicate_scan c)
                    else if status c \<noteq> BILLED then Inl (not_billed c)
                    else Inr c)))"

text \<open>
  \<open>verifyQRCode\<close> run on its own. \<open>t1\<close> is the clock reading inside \<open>markAsVerified\<close>,
  \<open>t2\<close> the later one inside \<open>complete\<close>.
\<close>

definition verifyQRCode :: "js_runtime \<Rightarrow> db \<Rightarrow> string \<Rightarrow> nat \<Rightarrow> nat \<Rightarrow> db \<times> response" where
  "verifyQRCode rt s qrData t1 t2 =
     (case verifyQRCode_checks rt s qrData of
        Inl r \<Rightarrow> (s, r)
      | Inr c \<Rightarrow>
          let c' = markAsVerified_local c t1;
              s1 = s\<lparr>customers := save_verified (customers s) c'\<rparr>
          in (case Queue_findOne_active (queues s1) (customerId c') of
                None \<Rightarrow> (s1, verification_successful c')
              | Some queueEntry \<Rightarrow>
                  (s1\<lparr>queues := save_completed (queues s1) (complete_local queueEntry t2)\<rparr>,
                   verification_successful c')))"

subsection \<open>verifyQRCode between its awaits\<close>

text \<open>
  The handler is an \<open>async\<close> function: between two of its \<open>await\<close>s other requests run.
  A request in flight is at one of these points; it carries the documents it holds in
  memory.
\<close>

datatype verify_task =
    Received string
  | Awaiting_save customer
  | Awaiting_queue_findOne customer
  | Awaiting_complete customer queue
  | Responded response

text \<open>
  One database operation of a request, followed by the code that runs up to the next
  \<open>await\<close>. \<open>now\<close> is the clock at that moment.
\<close>

fun verify_step :: "js_runtime \<Rightarrow> nat \<Rightarrow> db \<Rightarrow> verify_task \<Rightarrow> db \<times> verify_task" where
  "verify_step rt now s (Received qrData) =
     (case verifyQRCode_checks rt s qrData of
        Inl r \<Rightarrow> (s, Responded r)
      | Inr c \<Rightarrow> (s, Awaiting_save (markAsVerified_local c now)))"
| "verify_step rt now s (Awaiting_save c) =
     (s\<lparr>customers := save_verified (customers s) c\<rparr>, Awaiting_queue_findOne c)"
| "verify_step rt now s (Awaiting_queue_findOne c) =
     (case Queue_findOne_active (queues s) (customerId c) of
        None \<Rightarrow> (s, Responded (verification_successful c))
      | Some queueEntry \<Rightarrow> (s, Awaiting_complete c (complete_local queueEntry now)))"
| "verify_step rt now s (Awaiting_complete c q) =
     (s\<lparr>queues := save_completed (queues s) q\<rparr>, Responded (verification_successful c))"
| "verify_step rt now s (Responded r) = (s, Responded r)"

text \<open>
  Requests in flight share the database. A schedule names, step by step, the request
  that runs next and the clock reading at that step.
\<close>

fun run_interleaved ::
  "js_runtime \<Rightarrow> db \<Rightarrow> verify_task list \<Rightarrow> (nat \<times> nat) list \<Rightarrow> db \<times> verify_task list" where
  "run_interleaved rt s tasks [] = (s, tasks)"
| "run_interleaved rt s tasks ((i, now) # schedule) =
     (if i < length tasks
      then let (s', k) = verify_step rt now s (tasks ! i)
           in run_interleaved rt s' (tasks[i := k]) schedule
      else run_interleaved rt s tasks schedule)"

section \<open>getQueuePosition (the queue controller)\<close>

definition queue_position_verified :: "customer \<Rightarrow> response" where
  "queue_position_verified c =
     \<lparr>http_status = 200,
      body = JObj [(''success'', JBool True),
                   (''message'', JStr ''Customer has already been verified''),
                   (''data'', JObj [(''customerId'', JStr (customerId c)),
                                    (''status'', JStr ''VERIFIED''),
                                    (''position'', JNull)])]\<rparr>"

definition queue_position_found :: "customer \<Rightarrow> nat \<Rightarrow> response" where
  "queue_position_found c customersAhead =
     \<lparr>http_status = 200,
      body = JObj [(''success'', JBool True),
                   (''data'', JObj [(''customerId'', JStr (customerId c)),
                                    (''name'', JStr (name c)),
                                    (''queueNumber'', JNum (of_int (queueNumber c))),
                                    (''position'', JNum (of_nat (customersAhead + 1))),
                                    (''status'', JStr (status_str (status c))),
                                    (''customersAhead'', JNum (of_nat customersAhead))])]\<rparr>"

text \<open>\<open>Customer.countDocuments\<close> with the filter of \<open>getQueuePosition\<close>.\<close>

definition countAhead :: "customer list \<Rightarrow> int \<Rightarrow> nat" where
  "countAhead cs n =
     length (filter (\<lambda>d. (status d = WAITING \<or> status d = BILLED) \<and> queueNumber d < n) cs)"

definition getQueuePosition :: "db \<Rightarrow> string \<Rightarrow> response" where
  "getQueuePosition s cid =
     (case Customer_findOne (customers s) cid of
        None \<Rightarrow> customer_not_found
      | Some c \<Rightarrow>
          if status c = VERIFIED then queue_position_verified c
          else queue_position_found c (countAhead (customers s) (queueNumber c)))"

section \<open>deleteCustomer (the admin controller)\<close>

text \<open>\<open>findOneAndDelete\<close> and \<open>deleteOne\<close> remove the first document that matches.\<close>

fun delete_first :: "('a \<Rightarrow> bool) \<Rightarrow> 'a list \<Rightarrow> 'a list" where
  "delete_first P [] = []"
| "delete_first P (x # xs) = (if P x then xs else x # delete_first P xs)"

definition customer_deleted :: "customer \<Rightarrow> response" where
  "customer_deleted c =
     \<lparr>http_status = 200,
      body = JObj [(''success'', JBool True),
                   (''message'', JStr ''Customer deleted successfully''),
                   (''data'', JObj [(''customerId'', JStr (customerId c)),
                                    (''name'', JStr (name c))])]\<rparr>"

definition deleteCustomer :: "db \<Rightarrow> string \<Rightarrow> db \<times> response" where
  "deleteCustomer s cid =
     (case Customer_findOne (customers s) cid of
        None \<Rightarrow> (s, customer_not_found)
      | Some c \<Rightarrow>
          (\<lparr>customers = delete_first (\<lambda>d. customerId d = cid) (customers s),
            queues = delete_first (\<lambda>q. q_customerId q = cid) (queues s)\<rparr>,
           customer_deleted c))"

section \<open>Reading a response\<close>

text \<open>A top-level field of the JSON body, and a field of its \<open>data\<close> object.\<close>

definition body_field :: "response \<Rightarrow> string \<Rightarrow> js" where
  "body_field r k = (case get_property (body r) k of Inl e \<Rightarrow> JUndefined | Inr v \<Rightarrow> v)"

definition data_field :: "response \<Rightarrow> string \<Rightarrow> js" where
  "data_field r k =
     (case get_property (body_field r ''data'') k of Inl e \<Rightarrow> JUndefined | Inr v \<Rightarrow> v)"

text \<open>The \<open>verification\<close> field of the answer a request has received, if it has one.\<close>

fun outcome :: "verify_task \<Rightarrow> js" where
  "outcome (Responded r) = body_field r ''verification''"
| "outcome _ = JUndefined"

section \<open>Sample data\<close>

text \<open>
  The first two customers of the seed script, the payload of the first one's QR code,
  four payloads that do not verify, and a runtime that parses exactly these texts.
\<close>

definition sample_payload :: string where
  \<open>sample_payload =
     ''{"customerId":"SM-1001","queueNumber":1,"timestamp":"2026-01-24T10:00:00.000Z"}''\<close>

definition sample_object :: js where
  "sample_object =
     JObj [(''customerId'', JStr ''SM-1001''),
           (''queueNumber'', JNum 1),
           (''timestamp'', JStr ''2026-01-24T10:00:00.000Z'')]"

definition bad_id_payload :: string where
  \<open>bad_id_payload = ''{"customerId":"XX-1","queueNumber":1}''\<close>

definition bad_id_object :: js where
  "bad_id_object = JObj [(''customerId'', JStr ''XX-1''), (''queueNumber'', JNum 1)]"

definition bad_number_payload :: string where
  \<open>bad_number_payload = ''{"customerId":"SM-1001","queueNumber":-3}''\<close>

definition bad_number_object :: js where
  "bad_number_object = JObj [(''customerId'', JStr ''SM-1001''), (''queueNumber'', JNum (- 3))]"

definition unknown_payload :: string where
  \<open>unknown_payload = ''{"customerId":"SM-9999","queueNumber":7}''\<close>

definition unknown_object :: js where
  "unknown_object = JObj [(''customerId'', JStr ''SM-9999''), (''queueNumber'', JNum 7)]"

definition garbage_payload :: string where
  "garbage_payload = ''not a QR payload''"

definition sample_runtime :: js_runtime where
  "sample_runtime =
     \<lparr>JSON_parse = map_of [(sample_payload, sample_object),
                           (bad_id_payload, bad_id_object),
                           (bad_number_payload, bad_number_object),
                           (unknown_payload, unknown_object)],
      toISOString = (\<lambda>t. if t = 1769248800000 then ''2026-01-24T10:00:00.000Z'' else []),
      toDataURL = (\<lambda>p. Some (''data:image/png;base64,'' @ p))\<rparr>"

text \<open>The same runtime with \<open>JSON.parse\<close> as the standard defines it.\<close>

definition standard_runtime :: js_runtime where
  "standard_runtime = sample_runtime\<lparr>JSON_parse := json_parse\<rparr>"

definition amit :: customer where
  "amit =
     \<lparr>oid = 1, customerId = ''SM-1001'', name = ''Amit Verma'', phone = ''9876543210'',
      cartTotal = 1350, queueNumber = 1, qrCode = ''data:image/png;base64,'',
      status = WAITING, billedAt = None, verifiedAt = None, createdAt = 1769248800000\<rparr>"

definition neha :: customer where
  "neha =
     \<lparr>oid = 2, customerId = ''SM-1002'', name = ''Neha Gupta'', phone = ''9876543211'',
      cartTotal = 2899, queueNumber = 2, qrCode = ''data:image/png;base64,'',
      status = WAITING, billedAt = None, verifiedAt = None, createdAt = 1769248860000\<rparr>"

definition slot :: "customer \<Rightarrow> queue" where
  "slot c =
     \<lparr>q_oid = oid c, q_queueNumber = queueNumber c, q_customerId = customerId c,
      q_status = ACTIVE, q_enteredAt = createdAt c, q_completedAt = None\<rparr>"

definition sample_db :: db where
  "sample_db = \<lparr>customers = [amit, neha], queues = [slot amit, slot neha]\<rparr>"

text \<open>The same database after the first customer has paid.\<close>

definition billed_db :: db where
  "billed_db =
     \<lparr>customers = [amit\<lparr>status := BILLED, billedAt := Some 1769249000000\<rparr>, neha],
      queues = [slot amit, slot neha]\<rparr>"

text \<open>And after the first customer has left through the gate.\<close>

definition verified_db :: db where
  "verified_db =
     \<lparr>customers = [amit\<lparr>status := VERIFIED, billedAt := Some 1769249000000,
                             verifiedAt := Some 1769249500000\<rparr>, neha],
      queues = [(slot amit)\<lparr>q_status := COMPLETED, q_completedAt := Some 1769249500003\<rparr>,
                slot neha]\<rparr>"

text \<open>A customer holding the queue number \<open>2^53\<close>, which the schema admits.\<close>

definition far_customer :: customer where
  "far_customer = neha\<lparr>queueNumber := 9007199254740992\<rparr>"

text \<open>Two scans of the same code reaching the gate together, each request taking a step in turn.\<close>

definition two_scans :: "verify_task list" where
  "two_scans = [Received sample_payload, Received sample_payload]"

definition alternating :: "(nat \<times> nat) list" where
  "alternating =
     [(0, 1000), (1, 1001), (0, 1002), (1, 1003), (0, 1004), (1, 1005), (0, 1006), (1, 1007)]"

definition one_after_the_other :: "(nat \<times> nat) list" where
  "one_after_the_other =
     [(0, 1000), (0, 1001), (0, 1002), (0, 1003), (1, 1004), (1, 1005), (1, 1006), (1, 1007)]"

section \<open>The allocator\<close>

lemma bit_length_range: "2 ^ n \<le> a \<Longrightarrow> a < 2 ^ Suc n \<Longrightarrow> bit_length a = Suc n"
proof (induction n arbitrary: a)
  case 0
  then have "a = 1"
    by simp
  then show ?case
    by (simp add: bit_length.simps)
next
  case (Suc n)
  from Suc.prems have "2 ^ n \<le> a div 2" "a div 2 < 2 ^ Suc n"
    by simp_all
  then have "bit_length (a div 2) = Suc n"
    by (rule Suc.IH)
  moreover from Suc.prems have "a \<noteq> 0"
    by auto
  ultimately show ?case
    by (subst bit_length.simps) simp
qed

text \<open>Every integer up to \<open>2^53\<close> in magnitude is a double.\<close>

lemma round_to_double_exact:
  assumes "\<bar>k\<bar> \<le> 2 ^ 53"
  shows "round_to_double k = k"
proof (cases "\<bar>k\<bar> < 2 ^ 53")
  case True
  then have "nat \<bar>k\<bar> < 2 ^ 53"
    by (simp add: nat_less_iff)
  then show ?thesis
    by (simp add: round_to_double_def)
next
  case False
  with assms have mag: "\<bar>k\<bar> = 2 ^ 53"
    by simp
  then have a: "nat \<bar>k\<bar> = 2 ^ 53"
    by simp
  have "bit_length (2 ^ 53) = Suc 53"
    by (rule bit_length_range) simp_all
  with a mag show ?thesis
    by (simp add: round_to_double_def Let_def) (auto simp: abs_if split: if_splits)
qed

text \<open>\<open>2^53 + 1\<close> lies halfway between two doubles and rounds to the even one, \<open>2^53\<close>.\<close>

lemma round_to_double_first_gap: "round_to_double 9007199254740993 = 9007199254740992"
proof -
  have "bit_length 9007199254740993 = Suc 53"
    by (rule bit_length_range) simp_all
  then show ?thesis
    by (simp add: round_to_double_def Let_def)
qed

lemma sort_key_head_max:
  assumes "sort_key (\<lambda>c. - queueNumber c) cs = x # xs"
  shows "x \<in> set cs \<and> (\<forall>c \<in> set cs. queueNumber c \<le> queueNumber x)"
proof -
  have srt: "sorted (map (\<lambda>c. - queueNumber c) (sort_key (\<lambda>c. - queueNumber c) cs))"
    by (rule sorted_sort_key)
  have "set (sort_key (\<lambda>c. - queueNumber c) cs) = set cs"
    by simp
  with assms have mem: "x \<in> set cs" and cover: "set cs = insert x (set xs)"
    by auto
  from srt assms have "\<forall>y \<in> set xs. - queueNumber x \<le> - queueNumber y"
    by simp
  with mem cover show ?thesis
    by auto
qed

lemma getNextQueueNumber_Nil: "getNextQueueNumber [] = 1"
  by (simp add: getNextQueueNumber_def)

lemma getNextQueueNumber_Max:
  assumes "cs \<noteq> []"
  shows "getNextQueueNumber cs = round_to_double (1 + Max (queueNumber ` set cs))"
proof -
  have "length (sort_key (\<lambda>c. - queueNumber c) cs) = length cs"
    by simp
  with assms obtain x xs where hd: "sort_key (\<lambda>c. - queueNumber c) cs = x # xs"
    by (cases "sort_key (\<lambda>c. - queueNumber c) cs") auto
  from sort_key_head_max [OF hd] have "Max (queueNumber ` set cs) = queueNumber x"
    by (intro Max_eqI) auto
  with hd show ?thesis
    by (simp add: getNextQueueNumber_def add.commute)
qed

text \<open>
  C10, as the code has it. With no customer stored the allocator returns 1. Otherwise
  it returns the double nearest to one more than the largest queue number among all
  stored customers, whatever their status; that is exactly 1 + the maximum whenever the
  maximum is below \<open>2^53\<close> in magnitude.
\<close>

theorem allocator_is_one_plus_max:
  "getNextQueueNumber cs
     = (if cs = [] then 1 else round_to_double (1 + Max (queueNumber ` set cs)))
   \<and> (cs \<noteq> [] \<and> \<bar>Max (queueNumber ` set cs)\<bar> < 2 ^ 53
        \<longrightarrow> getNextQueueNumber cs = 1 + Max (queueNumber ` set cs))"
proof -
  have "round_to_double (1 + Max (queueNumber ` set cs)) = 1 + Max (queueNumber ` set cs)"
    if "\<bar>Max (queueNumber ` set cs)\<bar> < 2 ^ 53"
    using that by (intro round_to_double_exact) linarith
  then show ?thesis
    by (simp add: getNextQueueNumber_Nil getNextQueueNumber_Max)
qed

theorem allocator_is_one_plus_max_witness:
  "getNextQueueNumber [] = 1
   \<and> Max (queueNumber ` set (customers verified_db)) = 2
   \<and> getNextQueueNumber (customers verified_db) = 3"
proof -
  have m: "Max (queueNumber ` set (customers verified_db)) = 2"
    by (simp add: verified_db_def amit_def neha_def)
  have ne: "customers verified_db \<noteq> []"
    by (simp add: verified_db_def)
  from allocator_is_one_plus_max [of "[]"] allocator_is_one_plus_max [of "customers verified_db"] m ne
  show ?thesis
    by simp
qed

text \<open>
  C10, as it is worded, fails at the first integer whose successor is not a double:
  with a customer holding \<open>2^53\<close> the allocator returns \<open>2^53\<close> again, not \<open>2^53 + 1\<close>.
\<close>

theorem allocator_stalls_at_2_53:
  "queueNumber far_customer = 9007199254740992
   \<and> Max (queueNumber ` set [amit, far_customer]) = 9007199254740992
   \<and> getNextQueueNumber [amit, far_customer] = 9007199254740992
   \<and> getNextQueueNumber [amit, far_customer] \<noteq> 1 + Max (queueNumber ` set [amit, far_customer])"
  by (simp add: getNextQueueNumber_def far_customer_def amit_def neha_def
      round_to_double_first_gap)

text \<open>
  C4. The allocator keeps no counter: it reads the highest queue number still stored.
  The second customer was handed number 2; once the administrator deletes that
  customer, the next call hands out 2 again.
\<close>

theorem allocator_reuses_number:
  "getNextQueueNumber [amit] = queueNumber neha
   \<and> getNextQueueNumber (customers (fst (deleteCustomer sample_db ''SM-1002''))) = queueNumber neha"
  by (simp add: getNextQueueNumber_def round_to_double_def deleteCustomer_def Customer_findOne_def
      sample_db_def amit_def neha_def slot_def)

section \<open>Reading back what was written\<close>

subsection \<open>Numerals\<close>

lemma is_digit_iff: "is_digit c \<longleftrightarrow> 48 \<le> (of_char c :: nat) \<and> (of_char c :: nat) \<le> 57"
proof -
  have "is_digit c \<longleftrightarrow> (of_char c :: nat) \<in> of_char ` set ''0123456789''"
    unfolding is_digit_def by (auto simp del: set_simps image_insert)
  also have "\<dots> \<longleftrightarrow> 48 \<le> (of_char c :: nat) \<and> (of_char c :: nat) \<le> 57"
    by simp arith
  finally show ?thesis .
qed

lemma of_char_digit_char: "d < 10 \<Longrightarrow> (of_char (digit_char d) :: nat) = 48 + d"
  by (simp add: digit_char_def)

lemma is_digit_digit_char: "d < 10 \<Longrightarrow> is_digit (digit_char d)"
  by (simp add: is_digit_iff of_char_digit_char)

lemma digit_val_digit_char: "d < 10 \<Longrightarrow> digit_val (digit_char d) = d"
  by (simp add: digit_val_def of_char_digit_char)

lemma decimal_digits: "list_all is_digit (decimal n)"
proof (induction n rule: decimal.induct)
  case (1 n)
  then show ?case
    by (subst decimal.simps) (simp add: is_digit_digit_char)
qed

lemma decimal_nonempty: "decimal n \<noteq> []"
  by (subst decimal.simps) simp

lemma digits_val_snoc: "digits_val (ds @ [c]) = 10 * digits_val ds + digit_val c"
  by (simp add: digits_val_def)

lemma digits_val_decimal: "digits_val (decimal n) = n"
proof (induction n rule: decimal.induct)
  case (1 n)
  show ?case
  proof (cases "n < 10")
    case True
    then show ?thesis
      by (subst decimal.simps) (simp add: digits_val_def digit_val_digit_char)
  next
    case False
    with 1 have "digits_val (decimal (n div 10)) = n div 10"
      by simp
    with False show ?thesis
      by (subst decimal.simps) (simp add: digits_val_snoc digit_val_digit_char)
  qed
qed

lemma decimal_leading: "0 < n \<Longrightarrow> hd (decimal n) \<noteq> CHR ''0''"
proof (induction n rule: decimal.induct)
  case (1 n)
  show ?case
  proof (cases "n < 10")
    case True
    have "(of_char (digit_char n) :: nat) \<noteq> of_char (CHR ''0'')"
      using True "1.prems" by (simp add: of_char_digit_char)
    then have "digit_char n \<noteq> CHR ''0''"
      by auto
    with True show ?thesis
      by (subst decimal.simps) simp
  next
    case False
    with 1 have "hd (decimal (n div 10)) \<noteq> CHR ''0''"
      by simp
    with False show ?thesis
      by (subst decimal.simps) (simp add: decimal_nonempty)
  qed
qed

lemma double_of_rat_safe: "n < 2 ^ 53 \<Longrightarrow> double_of_rat (of_nat n) = JNum (of_nat n)"
proof -
  assume "n < 2 ^ 53"
  then have "(of_nat n :: rat) < of_nat (2 ^ 53)"
    by (simp only: of_nat_less_iff)
  then show ?thesis
    by (simp add: double_of_rat_def)
qed

lemma integer_part_run:
  assumes "is_digit d" and "d \<noteq> CHR ''0''" and "list_all is_digit ds" and "\<not> is_digit c"
  shows "integer_part (d # ds @ c # r) = d # ds"
  using assms by (simp add: integer_part_def takeWhile_append2 list_all_iff)

lemma fraction_part_absent: "c \<noteq> CHR ''.'' \<Longrightarrow> fraction_part (c # r) = Some ([], c # r)"
  by (simp add: fraction_part_def)

lemma exponent_part_absent:
  "c \<noteq> CHR ''e'' \<Longrightarrow> c \<noteq> CHR ''E'' \<Longrightarrow> exponent_part (c # r) = Some (0, c # r)"
  by (simp add: exponent_part_def)

text \<open>A decimal numeral followed by a character that cannot continue a number.\<close>

lemma parse_number_decimal:
  assumes "0 < n" and "n < 2 ^ 53"
    and "\<not> is_digit c" and "c \<noteq> CHR ''.''" and "c \<noteq> CHR ''e''" and "c \<noteq> CHR ''E''"
  shows "parse_number (decimal n @ c # r) = Some (JNum (of_nat n), c # r)"
proof -
  obtain d ds where dec: "decimal n = d # ds"
    using decimal_nonempty [of n] by (cases "decimal n") auto
  from decimal_digits [of n] dec have dig: "is_digit d" "list_all is_digit ds"
    by simp_all
  from decimal_leading [OF assms(1)] dec have lead: "d \<noteq> CHR ''0''"
    by simp
  from dig(1) have minus: "d \<noteq> CHR ''-''"
    by (auto simp: is_digit_def)
  have val: "digits_val (d # ds) = n"
    using digits_val_decimal [of n] dec by simp
  have "parse_number (d # ds @ c # r) = Some (double_of_rat (of_nat n), c # r)"
    using minus
    by (simp add: parse_number_def integer_part_run [OF dig(1) lead dig(2) assms(3)]
        fraction_part_absent [OF assms(4)] exponent_part_absent [OF assms(5,6)] val scale10_def)
  with dec double_of_rat_safe [OF assms(2)] show ?thesis
    by simp
qed

subsection \<open>String literals\<close>

lemma hex_digit_code: "d < 16 \<Longrightarrow> (of_char (hex_digit d) :: nat) = (if d < 10 then 48 + d else 87 + d)"
  by (simp add: hex_digit_def)

lemma hex_val_hex_digit: "d < 16 \<Longrightarrow> hex_val (hex_digit d) = Some d"
  by (simp add: hex_val_def hex_digit_code Let_def)

lemma hex_digit_plain:
  assumes "d < 16"
  shows "hex_digit d \<noteq> CHR 0x22 \<and> hex_digit d \<noteq> CHR 0x5C"
proof -
  have "(of_char (hex_digit d) :: nat) \<noteq> of_char (CHR 0x22)
        \<and> (of_char (hex_digit d) :: nat) \<noteq> of_char (CHR 0x5C)"
    using assms by (simp add: hex_digit_code)
  then show ?thesis
    by auto
qed

lemma take_body_quote_char:
  assumes "take_body t = Some (b, r)"
  shows "take_body (quote_char c @ t) = Some (quote_char c @ b, r)"
proof -
  have low: "(of_char c :: nat) div 16 < 16" "(of_char c :: nat) mod 16 < 16"
    using nat_of_char_less_256 [of c] by arith+
  show ?thesis
    using assms hex_digit_plain [OF low(1)] hex_digit_plain [OF low(2)]
    by (simp add: quote_char_def)
qed

lemma take_body_quoted:
  "take_body (concat (map quote_char s) @ CHR 0x22 # r) = Some (concat (map quote_char s), r)"
  by (induction s) (simp_all add: take_body_quote_char)

lemma unescape_quote_char:
  assumes "unescape t = Some v"
  shows "unescape (quote_char c @ t) = Some (c # v)"
proof (cases "(of_char c :: nat) < 32")
  case True
  let ?n = "of_char c :: nat"
  have hi: "?n div 16 < 16" and lo: "?n mod 16 < 16"
    using True by simp_all
  have zero: "hex_val (CHR ''0'') = Some 0"
    by (simp add: hex_val_def)
  have code: "hex4 [CHR ''0'', CHR ''0'', hex_digit (?n div 16), hex_digit (?n mod 16)] = Some ?n"
    by (simp add: hex4_def hex_val_hex_digit [OF hi] hex_val_hex_digit [OF lo] zero)
  have byte: "utf8 ?n = [c]"
    using True by (simp add: utf8_def)
  have plain: "\<not> is_high_surrogate ?n"
    using True by (simp add: is_high_surrogate_def)
  show ?thesis
    using assms code byte plain
    by (simp add: quote_char_def simple_escape_def)
next
  case False
  then have "c \<noteq> CHR 0x08" "c \<noteq> CHR 0x0C" "c \<noteq> CHR 0x0A" "c \<noteq> CHR 0x0D" "c \<noteq> CHR 0x09"
    by auto
  with False assms show ?thesis
    by (simp add: quote_char_def simple_escape_def)
qed

lemma unescape_quoted: "unescape (concat (map quote_char s)) = Some s"
  by (induction s) (simp_all add: unescape_quote_char)

lemma parse_string_quoted:
  "parse_string (concat (map quote_char s) @ CHR 0x22 # r) = Some (s, r)"
  by (simp add: parse_string_def take_body_quoted unescape_quoted)

subsection \<open>Values and members\<close>

lemma skip_ws_plain: "\<not> is_ws c \<Longrightarrow> skip_ws (c # s) = c # s"
  by (simp add: skip_ws_def)

lemma quote_not_ws: "\<not> is_ws (CHR 0x22)"
  by (simp add: is_ws_def)

lemma digit_not_ws: "is_digit d \<Longrightarrow> \<not> is_ws d"
  by (auto simp: is_digit_def is_ws_def)

lemma parse_value_quoted:
  "parse_value (Suc n) (json_quote s @ r) = Some (JStr s, r)"
  by (simp add: json_quote_def parse_string_quoted)

lemma parse_value_digit:
  assumes "is_digit d"
  shows "parse_value (Suc n) (d # s) = parse_number (d # s)"
proof -
  from assms have "d \<noteq> CHR ''{''" "d \<noteq> CHR ''[''" "d \<noteq> CHR 0x22"
    "d \<noteq> CHR ''t''" "d \<noteq> CHR ''f''" "d \<noteq> CHR ''n''"
    by (auto simp: is_digit_def)
  then show ?thesis
    by (cases s) simp_all
qed

lemma parse_value_decimal:
  assumes "0 < n" and "n < 2 ^ 53"
    and "\<not> is_digit c" and "c \<noteq> CHR ''.''" and "c \<noteq> CHR ''e''" and "c \<noteq> CHR ''E''"
  shows "parse_value (Suc m) (decimal n @ c # r) = Some (JNum (of_nat n), c # r)"
proof -
  obtain d ds where dec: "decimal n = d # ds"
    using decimal_nonempty [of n] by (cases "decimal n") auto
  with decimal_digits [of n] have "is_digit d"
    by simp
  then have "parse_value (Suc m) (d # ds @ c # r) = parse_number (d # ds @ c # r)"
    by (rule parse_value_digit)
  with dec parse_number_decimal [OF assms, of r] show ?thesis
    by simp
qed

lemma parse_members_next:
  assumes "parse_value n t = Some (v, CHR '','' # json_quote k' @ r)" and "skip_ws t = t"
  shows "parse_members (Suc n) acc (json_quote k @ CHR '':'' # t)
         = parse_members n (define_property acc k v) (json_quote k' @ r)"
  using assms
  by (simp add: json_quote_def parse_string_quoted skip_ws_plain is_ws_def)

lemma parse_members_last:
  assumes "parse_value n t = Some (v, CHR ''}'' # r)" and "skip_ws t = t"
  shows "parse_members (Suc n) acc (json_quote k @ CHR '':'' # t)
         = Some (JObj (define_property acc k v), r)"
  using assms
  by (simp add: json_quote_def parse_string_quoted skip_ws_plain is_ws_def)

lemma skip_ws_json_quote: "skip_ws (json_quote s @ r) = json_quote s @ r"
  by (simp add: json_quote_def skip_ws_plain is_ws_def)

lemma skip_ws_decimal: "skip_ws (decimal n @ r) = decimal n @ r"
proof -
  obtain d ds where dec: "decimal n = d # ds"
    using decimal_nonempty [of n] by (cases "decimal n") auto
  with decimal_digits [of n] have "is_digit d"
    by simp
  then have "\<not> is_ws d"
    by (rule digit_not_ws)
  with dec show ?thesis
    by (simp add: skip_ws_plain)
qed

subsection \<open>The payload of a QR code\<close>

lemma number_text_small: "0 \<le> qn \<Longrightarrow> qn < 2 ^ 53 \<Longrightarrow> number_text qn = decimal (nat qn)"
  by (simp add: number_text_def magnitude_text_def nat_less_iff)

lemma define_property_fresh:
  assumes "k \<notin> fst ` set kvs" and "array_index k = None"
  shows "define_property kvs k v = kvs @ [(k, v)]"
  using assms by (simp add: define_property_def)

lemma not_index: "\<not> is_digit (hd k) \<Longrightarrow> array_index k = None"
  by (cases k) (simp_all add: array_index_def)

lemma qrPayload_members:
  \<open>qrPayload rt cid qn now =
     CHR ''{'' # json_quote ''customerId'' @ CHR '':'' # json_quote cid
     @ CHR '','' # json_quote ''queueNumber'' @ CHR '':'' # number_text qn
     @ CHR '','' # json_quote ''timestamp'' @ CHR '':'' # json_quote (toISOString rt now) @ ''}''\<close>
  by (simp add: qrPayload_def json_quote_def quote_char_def)

lemma parse_value_qrPayload:
  assumes "1 \<le> qn" and "qn < 2 ^ 53"
  shows "parse_value (Suc (Suc (Suc (Suc (Suc n))))) (qrPayload rt cid qn now)
         = Some (JObj [(''customerId'', JStr cid),
                       (''queueNumber'', JNum (of_int qn)),
                       (''timestamp'', JStr (toISOString rt now))], [])"
proof -
  let ?n = "nat qn"
  from assms have num: "number_text qn = decimal ?n" and pos: "0 < ?n" and small: "?n < 2 ^ 53"
    by (simp_all add: number_text_small nat_less_iff)
  from assms have val: "(of_nat ?n :: rat) = of_int qn"
    by simp
  let ?t3 = "json_quote (toISOString rt now) @ ''}''"
  let ?m3 = "json_quote ''timestamp'' @ CHR '':'' # ?t3"
  let ?t2 = "decimal ?n @ CHR '','' # ?m3"
  let ?m2 = "json_quote ''queueNumber'' @ CHR '':'' # ?t2"
  let ?t1 = "json_quote cid @ CHR '','' # ?m2"
  let ?m1 = "json_quote ''customerId'' @ CHR '':'' # ?t1"
  let ?a1 = "[(''customerId'', JStr cid)]"
  let ?a2 = "[(''customerId'', JStr cid), (''queueNumber'', JNum (of_int qn))]"
  let ?a3 = "[(''customerId'', JStr cid), (''queueNumber'', JNum (of_int qn)), (''timestamp'', JStr (toISOString rt now))]"
  have p1: "define_property [] ''customerId'' (JStr cid) = ?a1"
    by (simp add: define_property_fresh not_index is_digit_def)
  have p2: "define_property ?a1 ''queueNumber'' (JNum (of_int qn)) = ?a2"
    by (simp add: define_property_fresh not_index is_digit_def)
  have p3: "define_property ?a2 ''timestamp'' (JStr (toISOString rt now)) = ?a3"
    by (simp add: define_property_fresh not_index is_digit_def)
  have v3: "parse_value (Suc n) ?t3 = Some (JStr (toISOString rt now), ''}'')"
    by (rule parse_value_quoted)
  have "parse_members (Suc (Suc n)) ?a2 ?m3 = Some (JObj (define_property ?a2 ''timestamp'' (JStr (toISOString rt now))), [])"
    using v3 skip_ws_json_quote by (rule parse_members_last)
  then have s3: "parse_members (Suc (Suc n)) ?a2 ?m3 = Some (JObj ?a3, [])"
    by (simp only: p3)
  have "parse_value (Suc (Suc n)) ?t2 = Some (JNum (of_nat ?n), CHR '','' # ?m3)"
    using pos small by (rule parse_value_decimal) (simp_all add: is_digit_def)
  then have v2: "parse_value (Suc (Suc n)) ?t2 = Some (JNum (of_int qn), CHR '','' # ?m3)"
    by (simp only: val)
  have "parse_members (Suc (Suc (Suc n))) ?a1 ?m2
        = parse_members (Suc (Suc n)) (define_property ?a1 ''queueNumber'' (JNum (of_int qn))) ?m3"
    using v2 skip_ws_decimal by (rule parse_members_next)
  then have s2: "parse_members (Suc (Suc (Suc n))) ?a1 ?m2 = Some (JObj ?a3, [])"
    by (simp only: p2 s3)
  have v1: "parse_value (Suc (Suc (Suc n))) ?t1 = Some (JStr cid, CHR '','' # ?m2)"
    by (rule parse_value_quoted)
  have "parse_members (Suc (Suc (Suc (Suc n)))) [] ?m1
        = parse_members (Suc (Suc (Suc n))) (define_property [] ''customerId'' (JStr cid)) ?m2"
    using v1 skip_ws_json_quote by (rule parse_members_next)
  then have s1: "parse_members (Suc (Suc (Suc (Suc n)))) [] ?m1 = Some (JObj ?a3, [])"
    by (simp only: p1 s2)
  have open_brace: "skip_ws ?m1 = ?m1" "take 1 ?m1 \<noteq> ''}''"
    by (simp_all add: json_quote_def skip_ws_plain is_ws_def)
  have "parse_value (Suc (Suc (Suc (Suc (Suc n))))) (CHR ''{'' # ?m1) = Some (JObj ?a3, [])"
    using s1 open_brace by (simp del: append.simps)
  then show ?thesis
    by (simp only: qrPayload_members num)
qed

lemma json_parse_qrPayload:
  assumes "1 \<le> qn" and "qn < 2 ^ 53"
  shows "json_parse (qrPayload rt cid qn now)
         = Some (JObj [(''customerId'', JStr cid),
                       (''queueNumber'', JNum (of_int qn)),
                       (''timestamp'', JStr (toISOString rt now))])"
proof -
  let ?s = "qrPayload rt cid qn now"
  have "3 \<le> length ?s"
    by (simp add: qrPayload_def)
  then have "2 * length ?s + 2 = Suc (Suc (Suc (Suc (Suc (2 * length ?s - 3)))))"
    by arith
  moreover have "skip_ws ?s = ?s"
    by (simp add: qrPayload_def skip_ws_plain is_ws_def)
  ultimately show ?thesis
    using parse_value_qrPayload [OF assms, where n = "2 * length ?s - 3"]
    by (simp add: json_parse_def skip_ws_def)
qed

section \<open>The credential codec\<close>

lemma matches_SM_digits_nonempty: "matches_SM_digits s \<Longrightarrow> s \<noteq> []"
  by (cases s) auto

lemma decodeQRData_error_generic:
  assumes "decodeQRData rt qrData = Inl e"
  shows "e = Error ''Invalid QR code format''"
  using assms by (auto simp: decodeQRData_def split: sum.splits)

lemma decodeQRData_try_accepts:
  assumes "decodeQRData_try rt qrData = Inr d"
  shows "JSON_parse rt qrData = Some d
         \<and> (\<exists>cid. get_property d ''customerId'' = Inr (JStr cid) \<and> matches_SM_digits cid)"
  using assms unfolding decodeQRData_try_def
  by (auto split: option.splits sum.splits if_splits js.splits)

lemma decodeQRData_accepts:
  assumes "decodeQRData rt qrData = Inr d"
  shows "JSON_parse rt qrData = Some d
         \<and> (\<exists>cid. get_property d ''customerId'' = Inr (JStr cid) \<and> matches_SM_digits cid)"
proof -
  from assms have "decodeQRData_try rt qrData = Inr d"
    by (auto simp: decodeQRData_def split: sum.splits)
  then show ?thesis
    by (rule decodeQRData_try_accepts)
qed

lemma decodeQRData_try_three_fields:
  assumes "JSON_parse rt qrData
           = Some (JObj [(''customerId'', JStr cid),
                         (''queueNumber'', JNum (of_int qn)),
                         (''timestamp'', JStr ts)])"
    and "matches_SM_digits cid" and "1 \<le> qn"
  shows "decodeQRData_try rt qrData
         = Inr (JObj [(''customerId'', JStr cid),
                      (''queueNumber'', JNum (of_int qn)),
                      (''timestamp'', JStr ts)])"
proof -
  from assms(2) have "cid \<noteq> []"
    by (rule matches_SM_digits_nonempty)
  moreover from assms(3) have "qn \<noteq> 0" "\<not> (of_int qn :: rat) < 1"
    by simp_all
  ultimately show ?thesis
    using assms(1,2) by (simp add: decodeQRData_try_def)
qed

text \<open>
  C6. For an identifier of the form \<open>SM-\<close>digits and a queue number from 1 up to, not
  including, \<open>2^53\<close>, \<open>generateQRCode\<close> hands to the renderer a text that
  \<open>decodeQRData\<close> reads back as the object with exactly the three fields
  \<open>customerId\<close>, \<open>queueNumber\<close> and \<open>timestamp\<close>, holding the identifier, the number and
  the clock reading as they were given; the image returned is the rendering of that
  text. \<open>JSON.parse\<close> is the function of the language standard.
\<close>

theorem decode_encode_roundtrip:
  assumes "JSON_parse rt = json_parse"
    and "matches_SM_digits cid"
    and "1 \<le> qn" and "qn < 2 ^ 53"
    and "toDataURL rt (qrPayload rt cid qn now) = Some url"
  shows "generateQRCode rt cid qn now = Inr url
         \<and> decodeQRData rt (qrPayload rt cid qn now)
             = Inr (JObj [(''customerId'', JStr cid),
                          (''queueNumber'', JNum (of_int qn)),
                          (''timestamp'', JStr (toISOString rt now))])"
proof -
  from assms(5) have "generateQRCode rt cid qn now = Inr url"
    by (simp add: generateQRCode_def)
  moreover have "JSON_parse rt (qrPayload rt cid qn now)
                 = Some (JObj [(''customerId'', JStr cid),
                               (''queueNumber'', JNum (of_int qn)),
                               (''timestamp'', JStr (toISOString rt now))])"
    using json_parse_qrPayload [OF assms(3,4)] by (simp only: assms(1))
  then have "decodeQRData_try rt (qrPayload rt cid qn now)
             = Inr (JObj [(''customerId'', JStr cid),
                          (''queueNumber'', JNum (of_int qn)),
                          (''timestamp'', JStr (toISOString rt now))])"
    using assms(2,3) by (rule decodeQRData_try_three_fields)
  then have "decodeQRData rt (qrPayload rt cid qn now)
             = Inr (JObj [(''customerId'', JStr cid),
                          (''queueNumber'', JNum (of_int qn)),
                          (''timestamp'', JStr (toISOString rt now))])"
    by (simp add: decodeQRData_def)
  ultimately show ?thesis
    by simp
qed

lemma qrPayload_sample: "qrPayload standard_runtime ''SM-1001'' 1 1769248800000 = sample_payload"
proof -
  have "char_of (49 :: nat) = CHR ''1''"
    by code_simp
  then have "decimal 1 = ''1''"
    by (subst decimal.simps) (simp add: digit_char_def)
  then show ?thesis
    by (simp add: qrPayload_def standard_runtime_def sample_runtime_def sample_payload_def
        json_quote_def quote_char_def number_text_def magnitude_text_def)
qed

theorem decode_encode_roundtrip_witness:
  "generateQRCode standard_runtime ''SM-1001'' 1 1769248800000
     = Inr (''data:image/png;base64,'' @ sample_payload)
   \<and> decodeQRData standard_runtime sample_payload = Inr sample_object"
  using decode_encode_roundtrip [of standard_runtime "''SM-1001''" 1 1769248800000
      "''data:image/png;base64,'' @ sample_payload"]
  by (simp add: qrPayload_sample)
     (simp add: standard_runtime_def sample_runtime_def sample_object_def is_digit_def)

text \<open>
  C7. The decoder does tell an unparsable text, a malformed identifier and a bad queue
  number apart inside its \<open>try\<close> block, but its own \<open>catch\<close> replaces each of them by the
  same error: the caller receives \<open>Invalid QR code format\<close> for all three.
\<close>

theorem decode_errors_collapse:
  "decodeQRData_try sample_runtime garbage_payload = Inl SyntaxError
   \<and> decodeQRData_try sample_runtime bad_id_payload = Inl (Error ''Invalid customer ID format'')
   \<and> decodeQRData_try sample_runtime bad_number_payload = Inl (Error ''Invalid queue number'')
   \<and> decodeQRData sample_runtime garbage_payload = Inl (Error ''Invalid QR code format'')
   \<and> decodeQRData sample_runtime bad_id_payload = Inl (Error ''Invalid QR code format'')
   \<and> decodeQRData sample_runtime bad_number_payload = Inl (Error ''Invalid QR code format'')"
  by (simp add: decodeQRData_def decodeQRData_try_def sample_runtime_def garbage_payload_def
      sample_payload_def bad_id_payload_def bad_id_object_def bad_number_payload_def
      bad_number_object_def unknown_payload_def is_digit_def)

section \<open>Saving a document\<close>

lemma find_map_same_answer:
  assumes "\<And>x. P (f x) = P x"
  shows "find P (map f xs) = map_option f (find P xs)"
  using assms by (induction xs) auto

lemma find_Some_member: "find P xs = Some x \<Longrightarrow> x \<in> set xs \<and> P x"
  by (induction xs) (auto split: if_splits)

lemma findOne_save_billed:
  assumes "Customer_findOne cs cid = Some c"
  shows "Customer_findOne (save_billed cs (markAsBilled_local c now)) cid
         = Some (c\<lparr>status := BILLED, billedAt := Some now\<rparr>)"
proof -
  let ?c' = "markAsBilled_local c now"
  let ?f = "\<lambda>d. if oid d = oid ?c' then d\<lparr>status := status ?c', billedAt := billedAt ?c'\<rparr> else d"
  have "find (\<lambda>c. customerId c = cid) (map ?f cs)
        = map_option ?f (find (\<lambda>c. customerId c = cid) cs)"
    by (rule find_map_same_answer) simp
  moreover have "?f c = c\<lparr>status := BILLED, billedAt := Some now\<rparr>"
    by (simp add: markAsBilled_local_def)
  ultimately show ?thesis
    using assms by (simp add: Customer_findOne_def save_billed_def)
qed


lemma save_completed_member:
  assumes "Queue_findOne_active qs cid = Some q"
  shows "q\<lparr>q_status := COMPLETED, q_completedAt := Some now\<rparr>
         \<in> set (save_completed qs (complete_local q now))"
proof -
  let ?q' = "complete_local q now"
  let ?f = "\<lambda>d. if q_oid d = q_oid ?q'
                then d\<lparr>q_status := q_status ?q', q_completedAt := q_completedAt ?q'\<rparr> else d"
  from assms have "q \<in> set qs"
    unfolding Queue_findOne_active_def by (auto dest: find_Some_member)
  then have "?f q \<in> set (map ?f qs)"
    by (rule imageI [of q "set qs" ?f, unfolded set_map [symmetric]])
  moreover have "?f q = q\<lparr>q_status := COMPLETED, q_completedAt := Some now\<rparr>"
    by (simp add: complete_local_def)
  ultimately show ?thesis
    by (simp add: save_completed_def)
qed




section \<open>Billing\<close>

lemma completeBilling_not_found:
  "Customer_findOne (customers s) cid = None \<Longrightarrow> completeBilling s cid now = (s, customer_not_found)"
  by (simp add: completeBilling_def)

lemma completeBilling_verified:
  "Customer_findOne (customers s) cid = Some c \<Longrightarrow> status c = VERIFIED
   \<Longrightarrow> completeBilling s cid now = (s, billing_already_verified c)"
  by (simp add: completeBilling_def)

lemma completeBilling_billed:
  "Customer_findOne (customers s) cid = Some c \<Longrightarrow> status c = BILLED
   \<Longrightarrow> completeBilling s cid now = (s, billing_already_billed c)"
  by (simp add: completeBilling_def)

lemma completeBilling_waiting:
  "Customer_findOne (customers s) cid = Some c \<Longrightarrow> status c = WAITING
   \<Longrightarrow> completeBilling s cid now
       = (s\<lparr>customers := save_billed (customers s) (markAsBilled_local c now)\<rparr>,
          billing_completed (c\<lparr>status := BILLED, billedAt := Some now\<rparr>))"
  by (simp add: completeBilling_def Let_def markAsBilled_local_def)

text \<open>
  C8. Billing an unknown identifier answers 404 and billing a verified customer
  answers 400, both without a write; billing a waiting customer stores status BILLED
  and \<open>billedAt = now\<close>; billing a billed customer answers 200 and writes nothing. So a
  second call right after the first leaves the database exactly as the first call left
  it, and is answered as a success.
\<close>

theorem billing_idempotent:
  "(Customer_findOne (customers s) cid = None \<longrightarrow>
      completeBilling s cid now = (s, customer_not_found))
   \<and> (Customer_findOne (customers s) cid = Some c \<and> status c = VERIFIED \<longrightarrow>
      completeBilling s cid now = (s, billing_already_verified c))
   \<and> (Customer_findOne (customers s) cid = Some c \<and> status c = BILLED \<longrightarrow>
      completeBilling s cid now = (s, billing_already_billed c))
   \<and> (Customer_findOne (customers s) cid = Some c \<and> status c = WAITING \<longrightarrow>
      snd (completeBilling s cid now)
        = billing_completed (c\<lparr>status := BILLED, billedAt := Some now\<rparr>)
      \<and> Customer_findOne (customers (fst (completeBilling s cid now))) cid
        = Some (c\<lparr>status := BILLED, billedAt := Some now\<rparr>)
      \<and> completeBilling (fst (completeBilling s cid now)) cid later
        = (fst (completeBilling s cid now),
           billing_already_billed (c\<lparr>status := BILLED, billedAt := Some now\<rparr>)))
   \<and> fst (completeBilling (fst (completeBilling s cid now)) cid later)
       = fst (completeBilling s cid now)
   \<and> http_status customer_not_found = 404
   \<and> http_status (billing_already_verified c) = 400
   \<and> http_status (billing_already_billed c) = 200
   \<and> body_field (billing_already_billed c) ''success'' = JBool True"
proof -
  have waiting: "snd (completeBilling s cid now)
        = billing_completed (c\<lparr>status := BILLED, billedAt := Some now\<rparr>)
      \<and> Customer_findOne (customers (fst (completeBilling s cid now))) cid
        = Some (c\<lparr>status := BILLED, billedAt := Some now\<rparr>)
      \<and> completeBilling (fst (completeBilling s cid now)) cid later
        = (fst (completeBilling s cid now),
           billing_already_billed (c\<lparr>status := BILLED, billedAt := Some now\<rparr>))"
    if found: "Customer_findOne (customers s) cid = Some c" and st: "status c = WAITING" for c
  proof -
    let ?s' = "fst (completeBilling s cid now)"
    have again: "Customer_findOne (customers ?s') cid
                 = Some (c\<lparr>status := BILLED, billedAt := Some now\<rparr>)"
      using findOne_save_billed [OF found, of now]
      by (simp add: completeBilling_waiting [OF found st])
    then have "completeBilling ?s' cid later
               = (?s', billing_already_billed (c\<lparr>status := BILLED, billedAt := Some now\<rparr>))"
      by (rule completeBilling_billed) simp
    with again show ?thesis
      by (simp add: completeBilling_waiting [OF found st])
  qed
  have twice: "fst (completeBilling (fst (completeBilling s cid now)) cid later)
               = fst (completeBilling s cid now)"
  proof (cases "Customer_findOne (customers s) cid")
    case None
    then show ?thesis
      by (simp add: completeBilling_not_found)
  next
    case (Some c0)
    show ?thesis
    proof (cases "status c0")
      case WAITING
      with waiting [OF Some] show ?thesis by simp
    next
      case BILLED
      with Some show ?thesis by (simp add: completeBilling_billed)
    next
      case VERIFIED
      with Some show ?thesis by (simp add: completeBilling_verified)
    qed
  qed
  have shapes: "http_status customer_not_found = 404
      \<and> http_status (billing_already_verified c) = 400
      \<and> http_status (billing_already_billed c) = 200
      \<and> body_field (billing_already_billed c) ''success'' = JBool True"
    by (simp add: customer_not_found_def billing_already_verified_def billing_already_billed_def
        body_field_def)
  from waiting twice shapes show ?thesis
    by (simp add: completeBilling_not_found completeBilling_verified completeBilling_billed)
qed

theorem billing_idempotent_witness:
  "Customer_findOne (customers sample_db) ''SM-1001'' = Some amit
   \<and> status amit = WAITING
   \<and> fst (completeBilling sample_db ''SM-1001'' 1769249000000) = billed_db
   \<and> completeBilling billed_db ''SM-1001'' 1769249000777
       = (billed_db, billing_already_billed (amit\<lparr>status := BILLED, billedAt := Some 1769249000000\<rparr>))"
proof -
  have found: "Customer_findOne (customers sample_db) ''SM-1001'' = Some amit"
    by (simp add: Customer_findOne_def sample_db_def amit_def)
  have st: "status amit = WAITING"
    by (simp add: amit_def)
  have first: "fst (completeBilling sample_db ''SM-1001'' 1769249000000) = billed_db"
    by (simp add: completeBilling_def Customer_findOne_def markAsBilled_local_def save_billed_def
        Let_def sample_db_def billed_db_def amit_def neha_def)
  from billing_idempotent [of sample_db "''SM-1001''" 1769249000000 amit 1769249000777] found st first
  show ?thesis
    by simp
qed

section \<open>The exit gate\<close>

lemma verifyQRCode_checks_found:
  assumes "qrData \<noteq> []"
    and "decodeQRData rt qrData = Inr d"
    and "get_property d ''customerId'' = Inr (JStr cid)"
    and "get_property d ''queueNumber'' = Inr (JNum qn)"
    and "Customer_findOne (customers s) cid = Some c"
  shows "verifyQRCode_checks rt s qrData =
           (if of_int (queueNumber c) \<noteq> qn then Inl data_mismatch
            else if status c = VERIFIED then Inl (duplicate_scan c)
            else if status c \<noteq> BILLED then Inl (not_billed c)
            else Inr c)"
  using assms by (simp add: verifyQRCode_checks_def)

lemma verifyQRCode_checks_undecodable:
  assumes "qrData \<noteq> []" and "decodeQRData rt qrData = Inl e"
  shows "verifyQRCode_checks rt s qrData = Inl (invalid_qr_format (Error ''Invalid QR code format''))"
proof -
  from assms(2) have "e = Error ''Invalid QR code format''"
    by (rule decodeQRData_error_generic)
  with assms show ?thesis
    by (simp add: verifyQRCode_checks_def)
qed

lemma verifyQRCode_checks_absent:
  assumes "qrData \<noteq> []"
    and "decodeQRData rt qrData = Inr d"
    and "get_property d ''customerId'' = Inr (JStr cid)"
    and "Customer_findOne (customers s) cid = None"
  shows "verifyQRCode_checks rt s qrData = Inl verify_not_found"
  using assms by (simp add: verifyQRCode_checks_def)

text \<open>After a successful decode the customer id is a string.\<close>

lemma decoded_customerId_string:
  assumes "decodeQRData rt qrData = Inr d"
  shows "js_string (get_property d ''customerId'') \<noteq> None"
  using decodeQRData_accepts [OF assms] by auto

lemma verifyQRCode_rejected:
  "verifyQRCode_checks rt s qrData = Inl r \<Longrightarrow> verifyQRCode rt s qrData t1 t2 = (s, r)"
  by (simp add: verifyQRCode_def)

text \<open>
  The step model agrees with the handler: a request that runs all its steps with no
  other request in between ends in the state and with the answer of \<open>verifyQRCode\<close>.
\<close>

lemma run_alone:
  "run_interleaved rt s [Received qrData] [(0, t1), (0, ta), (0, t2), (0, tb)]
   = (fst (verifyQRCode rt s qrData t1 t2), [Responded (snd (verifyQRCode rt s qrData t1 t2))])"
proof (cases "verifyQRCode_checks rt s qrData")
  case (Inl r)
  then show ?thesis
    by (simp add: verifyQRCode_def)
next
  case (Inr c)
  then show ?thesis
    by (cases "Queue_findOne_active (queues s) (customerId c)")
       (simp_all add: verifyQRCode_def Let_def markAsVerified_local_def)
qed

text \<open>
  C2. A credential that decodes to the identifier and queue number of a customer whose
  status is VERIFIED is answered 400, FAILED, DUPLICATE_SCAN, with the stored
  \<open>verifiedAt\<close> in the body, and the database is returned as it was.
\<close>

theorem verify_replay_rejected:
  assumes "qrData \<noteq> []"
    and "decodeQRData rt qrData = Inr d"
    and "get_property d ''customerId'' = Inr (JStr (customerId c))"
    and "get_property d ''queueNumber'' = Inr (JNum (of_int (queueNumber c)))"
    and "Customer_findOne (customers s) (customerId c) = Some c"
    and "status c = VERIFIED"
  shows "verifyQRCode rt s qrData t1 t2 = (s, duplicate_scan c)
         \<and> http_status (duplicate_scan c) = 400
         \<and> body_field (duplicate_scan c) ''success'' = JBool False
         \<and> body_field (duplicate_scan c) ''verification'' = JStr ''FAILED''
         \<and> body_field (duplicate_scan c) ''reason'' = JStr ''DUPLICATE_SCAN''
         \<and> body_field (duplicate_scan c) ''verifiedAt'' = date_or_null (verifiedAt c)"
proof -
  from assms have "verifyQRCode_checks rt s qrData = Inl (duplicate_scan c)"
    by (simp add: verifyQRCode_checks_found)
  then have "verifyQRCode rt s qrData t1 t2 = (s, duplicate_scan c)"
    by (rule verifyQRCode_rejected)
  then show ?thesis
    by (simp add: duplicate_scan_def body_field_def)
qed

theorem verify_replay_rejected_witness:
  "verifyQRCode sample_runtime verified_db sample_payload 1769249900000 1769249900004
     = (verified_db, duplicate_scan (hd (customers verified_db)))
   \<and> body_field (duplicate_scan (hd (customers verified_db))) ''reason'' = JStr ''DUPLICATE_SCAN''
   \<and> body_field (duplicate_scan (hd (customers verified_db))) ''verifiedAt'' = JDate 1769249500000"
  using verify_replay_rejected [of sample_payload sample_runtime sample_object
      "hd (customers verified_db)" verified_db 1769249900000 1769249900004]
  by (simp add: decodeQRData_def decodeQRData_try_def sample_runtime_def sample_payload_def
      sample_object_def is_digit_def verified_db_def amit_def neha_def Customer_findOne_def
      date_or_null_def)




text \<open>
  The header of the controller announces transaction handling for atomicity; the
  handler opens no transaction. Between its first save and its second the customer is
  already VERIFIED while the queue entry is still ACTIVE, and a request served at that
  moment reads exactly this.
\<close>

lemma verify_half_applied:
  "map status (customers (fst (run_interleaved sample_runtime billed_db
       [Received sample_payload] [(0, 1000), (0, 1001)])))
     = [VERIFIED, WAITING]
   \<and> map q_status (queues (fst (run_interleaved sample_runtime billed_db
       [Received sample_payload] [(0, 1000), (0, 1001)])))
     = [ACTIVE, ACTIVE]"
  by (simp add: verifyQRCode_checks_def decodeQRData_def decodeQRData_try_def
      sample_runtime_def sample_payload_def sample_object_def is_digit_def
      Customer_findOne_def markAsVerified_local_def save_verified_def
      billed_db_def amit_def neha_def slot_def)

text \<open>
  C9, as the code has it. A payload that cannot be decoded is answered 400 with the
  message \<open>Invalid QR code format\<close> and neither a \<open>verification\<close> nor a \<open>reason\<close> field; a
  payload that decodes to an identifier with no customer is answered 404 with
  \<open>Customer not found\<close>, FAILED and INVALID_QR. Neither writes to the database.
\<close>

theorem verify_invalid_and_absent_responses:
  assumes "qrData \<noteq> []"
  shows "(decodeQRData rt qrData = Inl e \<longrightarrow>
            verifyQRCode rt s qrData t1 t2
              = (s, invalid_qr_format (Error ''Invalid QR code format'')))
         \<and> (decodeQRData rt qrData = Inr d \<and> get_property d ''customerId'' = Inr (JStr cid)
              \<and> Customer_findOne (customers s) cid = None \<longrightarrow>
            verifyQRCode rt s qrData t1 t2 = (s, verify_not_found))
         \<and> http_status (invalid_qr_format x) = 400
         \<and> body_field (invalid_qr_format x) ''verification'' = JUndefined
         \<and> body_field (invalid_qr_format x) ''reason'' = JUndefined
         \<and> http_status verify_not_found = 404
         \<and> body_field verify_not_found ''verification'' = JStr ''FAILED''
         \<and> body_field verify_not_found ''reason'' = JStr ''INVALID_QR''"
proof -
  have "verifyQRCode rt s qrData t1 t2 = (s, invalid_qr_format (Error ''Invalid QR code format''))"
    if "decodeQRData rt qrData = Inl e"
    using verifyQRCode_checks_undecodable [OF assms that] by (rule verifyQRCode_rejected)
  moreover have "verifyQRCode rt s qrData t1 t2 = (s, verify_not_found)"
    if "decodeQRData rt qrData = Inr d" "get_property d ''customerId'' = Inr (JStr cid)"
      "Customer_findOne (customers s) cid = None"
    using verifyQRCode_checks_absent [OF assms that] by (rule verifyQRCode_rejected)
  ultimately show ?thesis
    by (simp add: invalid_qr_format_def verify_not_found_def body_field_def)
qed

theorem verify_invalid_and_absent_responses_witness:
  "verifyQRCode sample_runtime sample_db garbage_payload 1000 1005
     = (sample_db, invalid_qr_format (Error ''Invalid QR code format''))
   \<and> verifyQRCode sample_runtime sample_db unknown_payload 1000 1005 = (sample_db, verify_not_found)"
proof -
  have garbage: "garbage_payload \<noteq> [] \<and> decodeQRData sample_runtime garbage_payload
                   = Inl (Error ''Invalid QR code format'')"
    by (simp add: decodeQRData_def decodeQRData_try_def sample_runtime_def garbage_payload_def
        sample_payload_def bad_id_payload_def bad_number_payload_def unknown_payload_def)
  have unknown: "unknown_payload \<noteq> [] \<and> decodeQRData sample_runtime unknown_payload = Inr unknown_object
                 \<and> get_property unknown_object ''customerId'' = Inr (JStr ''SM-9999'')
                 \<and> Customer_findOne (customers sample_db) ''SM-9999'' = None"
    by (simp add: decodeQRData_def decodeQRData_try_def sample_runtime_def
        sample_payload_def bad_id_payload_def bad_number_payload_def unknown_payload_def
        unknown_object_def is_digit_def Customer_findOne_def sample_db_def amit_def neha_def)
  from verify_invalid_and_absent_responses [of garbage_payload sample_runtime
      "Error ''Invalid QR code format''" sample_db 1000 1005] garbage
    verify_invalid_and_absent_responses [of unknown_payload sample_runtime _ sample_db 1000 1005
      unknown_object "''SM-9999''"] unknown
  show ?thesis
    by simp
qed

text \<open>
  C9, as the specification words it, fails: the answer to a payload that cannot be
  decoded and the answer to a well-formed payload naming no customer differ in status
  code and in body, so the gate does tell the caller which of the two happened.
\<close>

theorem verify_absent_differs_from_undecodable:
  "decodeQRData sample_runtime garbage_payload = Inl (Error ''Invalid QR code format'')
   \<and> decodeQRData sample_runtime unknown_payload = Inr unknown_object
   \<and> Customer_findOne (customers sample_db) ''SM-9999'' = None
   \<and> http_status (snd (verifyQRCode sample_runtime sample_db garbage_payload 1000 1005)) = 400
   \<and> http_status (snd (verifyQRCode sample_runtime sample_db unknown_payload 1000 1005)) = 404
   \<and> body_field (snd (verifyQRCode sample_runtime sample_db garbage_payload 1000 1005)) ''reason''
       = JUndefined
   \<and> body_field (snd (verifyQRCode sample_runtime sample_db unknown_payload 1000 1005)) ''reason''
       = JStr ''INVALID_QR''
   \<and> snd (verifyQRCode sample_runtime sample_db garbage_payload 1000 1005)
       \<noteq> snd (verifyQRCode sample_runtime sample_db unknown_payload 1000 1005)"
  by (simp add: verifyQRCode_def verifyQRCode_checks_def decodeQRData_def decodeQRData_try_def
      sample_runtime_def garbage_payload_def sample_payload_def bad_id_payload_def
      bad_number_payload_def unknown_payload_def unknown_object_def is_digit_def
      Customer_findOne_def sample_db_def amit_def neha_def
      invalid_qr_format_def verify_not_found_def body_field_def)

text \<open>
  C1. Two requests present the same valid credential of a BILLED customer and take
  their steps in turn. Both read the customer before either has saved it, both pass the
  status checks, and both are answered SUCCESS. Served one after the other, the second
  is answered FAILED.
\<close>

theorem concurrent_verify_both_succeed:
  "map outcome (snd (run_interleaved sample_runtime billed_db two_scans alternating))
     = [JStr ''SUCCESS'', JStr ''SUCCESS'']
   \<and> map outcome (snd (run_interleaved sample_runtime billed_db two_scans one_after_the_other))
     = [JStr ''SUCCESS'', JStr ''FAILED'']"
  by (simp add: two_scans_def alternating_def one_after_the_other_def
      verifyQRCode_checks_def decodeQRData_def decodeQRData_try_def
      sample_runtime_def sample_payload_def sample_object_def is_digit_def
      Customer_findOne_def Queue_findOne_active_def markAsVerified_local_def save_verified_def
      complete_local_def save_completed_def billed_db_def amit_def neha_def slot_def
      verification_successful_def duplicate_scan_def body_field_def)

section \<open>Position in the queue\<close>

lemma countAhead_none_smaller:
  assumes "\<forall>d \<in> set cs. (status d = WAITING \<or> status d = BILLED) \<longrightarrow> n \<le> queueNumber d"
  shows "countAhead cs n = 0"
  using assms by (auto simp: countAhead_def filter_empty_conv)

lemma getQueuePosition_ranked:
  assumes "Customer_findOne (customers s) cid = Some c" and "status c \<noteq> VERIFIED"
  shows "data_field (getQueuePosition s cid) ''position''
         = JNum (of_nat (countAhead (customers s) (queueNumber c) + 1))"
  using assms
  by (simp add: getQueuePosition_def queue_position_found_def data_field_def body_field_def)

text \<open>\<open>Queue.getPosition\<close> counts the same way over the ACTIVE entries of the Queue collection.\<close>

lemma getPosition_counts_active:
  "getPosition qs n = 1 + length (filter (\<lambda>q. q_status q = ACTIVE \<and> q_queueNumber q < n) qs)"
  by (simp add: getPosition_def)

text \<open>
  C5. For a customer who is WAITING or BILLED the query answers with position
  1 + the number of WAITING or BILLED customers whose queue number is strictly smaller;
  in particular position 1 when no such customer has a smaller number. An unknown
  identifier is answered 404; a VERIFIED customer is answered with position \<open>null\<close>.
\<close>

theorem queue_position_query:
  "(Customer_findOne (customers s) cid = None \<longrightarrow>
      getQueuePosition s cid = customer_not_found \<and> http_status (getQueuePosition s cid) = 404)
   \<and> (Customer_findOne (customers s) cid = Some c \<and> status c = VERIFIED \<longrightarrow>
      http_status (getQueuePosition s cid) = 200
      \<and> data_field (getQueuePosition s cid) ''position'' = JNull)
   \<and> (Customer_findOne (customers s) cid = Some c \<and> status c \<in> {WAITING, BILLED} \<longrightarrow>
      http_status (getQueuePosition s cid) = 200
      \<and> data_field (getQueuePosition s cid) ''position''
          = JNum (of_nat (1 + length (filter (\<lambda>d. status d \<in> {WAITING, BILLED}
                                                \<and> queueNumber d < queueNumber c) (customers s)))))
   \<and> (Customer_findOne (customers s) cid = Some c \<and> status c \<in> {WAITING, BILLED}
        \<and> (\<forall>d \<in> set (customers s). status d \<in> {WAITING, BILLED} \<longrightarrow> queueNumber c \<le> queueNumber d)
      \<longrightarrow> data_field (getQueuePosition s cid) ''position'' = JNum 1)"
proof -
  have absent: "getQueuePosition s cid = customer_not_found \<and> http_status (getQueuePosition s cid) = 404"
    if "Customer_findOne (customers s) cid = None"
    using that by (simp add: getQueuePosition_def customer_not_found_def)
  have verified: "http_status (getQueuePosition s cid) = 200
      \<and> data_field (getQueuePosition s cid) ''position'' = JNull"
    if "Customer_findOne (customers s) cid = Some c" "status c = VERIFIED"
    using that
    by (simp add: getQueuePosition_def queue_position_verified_def data_field_def body_field_def)
  have count: "countAhead (customers s) (queueNumber c)
      = length (filter (\<lambda>d. status d \<in> {WAITING, BILLED} \<and> queueNumber d < queueNumber c) (customers s))"
    by (simp add: countAhead_def)
  have ranked: "http_status (getQueuePosition s cid) = 200
      \<and> data_field (getQueuePosition s cid) ''position''
          = JNum (of_nat (1 + length (filter (\<lambda>d. status d \<in> {WAITING, BILLED}
                                                \<and> queueNumber d < queueNumber c) (customers s))))"
    if found: "Customer_findOne (customers s) cid = Some c" and st: "status c \<in> {WAITING, BILLED}"
  proof -
    from st have nv: "status c \<noteq> VERIFIED"
      by auto
    from found nv have "http_status (getQueuePosition s cid) = 200"
      by (simp add: getQueuePosition_def queue_position_found_def)
    with getQueuePosition_ranked [OF found nv] count show ?thesis
      by (simp add: add.commute)
  qed
  have first: "data_field (getQueuePosition s cid) ''position'' = JNum 1"
    if found: "Customer_findOne (customers s) cid = Some c" and st: "status c \<in> {WAITING, BILLED}"
      and least: "\<forall>d \<in> set (customers s). status d \<in> {WAITING, BILLED} \<longrightarrow> queueNumber c \<le> queueNumber d"
  proof -
    from st have nv: "status c \<noteq> VERIFIED"
      by auto
    from least have "countAhead (customers s) (queueNumber c) = 0"
      by (intro countAhead_none_smaller) auto
    with getQueuePosition_ranked [OF found nv] show ?thesis
      by simp
  qed
  from absent verified ranked first show ?thesis
    by blast
qed

theorem queue_position_query_witness:
  "getQueuePosition sample_db ''SM-0000'' = customer_not_found
   \<and> data_field (getQueuePosition verified_db ''SM-1001'') ''position'' = JNull
   \<and> data_field (getQueuePosition sample_db ''SM-1002'') ''position'' = JNum 2
   \<and> data_field (getQueuePosition verified_db ''SM-1002'') ''position'' = JNum 1"
proof -
  have absent: "Customer_findOne (customers sample_db) ''SM-0000'' = None"
    by (simp add: Customer_findOne_def sample_db_def amit_def neha_def)
  have gone: "Customer_findOne (customers verified_db) ''SM-1001'' = Some (hd (customers verified_db))
      \<and> status (hd (customers verified_db)) = VERIFIED"
    by (simp add: Customer_findOne_def verified_db_def amit_def)
  have second: "Customer_findOne (customers sample_db) ''SM-1002'' = Some neha
      \<and> status neha = WAITING
      \<and> length (filter (\<lambda>d. status d \<in> {WAITING, BILLED} \<and> queueNumber d < queueNumber neha)
            (customers sample_db)) = 1"
    by (simp add: Customer_findOne_def sample_db_def amit_def neha_def)
  have now_first: "Customer_findOne (customers verified_db) ''SM-1002'' = Some neha
      \<and> status neha = WAITING
      \<and> (\<forall>d \<in> set (customers verified_db). status d \<in> {WAITING, BILLED} \<longrightarrow> queueNumber neha \<le> queueNumber d)"
    by (simp add: Customer_findOne_def verified_db_def amit_def neha_def)
  have a: "getQueuePosition sample_db ''SM-0000'' = customer_not_found"
    using queue_position_query [of sample_db "''SM-0000''"] absent by simp
  have b: "data_field (getQueuePosition verified_db ''SM-1001'') ''position'' = JNull"
    using queue_position_query [of verified_db "''SM-1001''" "hd (customers verified_db)"] gone
    by simp
  have c: "data_field (getQueuePosition sample_db ''SM-1002'') ''position'' = JNum 2"
    using queue_position_query [of sample_db "''SM-1002''" neha] second by simp
  have d: "data_field (getQueuePosition verified_db ''SM-1002'') ''position'' = JNum 1"
    using queue_position_query [of verified_db "''SM-1002''" neha] now_first by blast
  from a b c d show ?thesis
    by simp
qed

end
